theory Spec2Isabelle
  imports Complex_Main "HOL-Library.Product_Order"
begin

section \<open>Data model\<close>

text \<open>
  The solver works on conserved states of the 2D Euler equations: four numbers
  (density, x-momentum, y-momentum, total energy), read in the source through
  \<^verbatim>\<open>ul->get(0)\<close> .. \<^verbatim>\<open>ul->get(3)\<close>. A flux has the same shape, and a face normal
  is a pair \<^verbatim>\<open>n[0], n[1]\<close>. The source's \<^verbatim>\<open>acfd_real\<close> / \<^verbatim>\<open>a_real\<close> is \<^verbatim>\<open>double\<close>;
  the embedding computes over the reals, so every statement below is about the
  exact arithmetic that the floating-point code approximates. \<^verbatim>\<open>pow(x,2)\<close> is
  \<open>x\<^sup>2\<close>, \<^verbatim>\<open>fabs\<close> is the absolute value.

  The adiabatic index is the member \<^verbatim>\<open>g\<close> of \<^verbatim>\<open>InviscidFlux\<close>, set by the constructor,
  and is the first argument of every function here.
\<close>

type_synonym vec4 = "real \<times> real \<times> real \<times> real"
type_synonym vec2 = "real \<times> real"

definition vscale :: "real \<Rightarrow> vec4 \<Rightarrow> vec4" where
  "vscale a f = (case f of (f0, f1, f2, f3) \<Rightarrow> (a * f0, a * f1, a * f2, a * f3))"

subsection \<open>Derived quantities of one state (spec section 4.1, section 3)\<close>

definition pressure :: "real \<Rightarrow> vec4 \<Rightarrow> real" where
  "pressure g u = (case u of (rho, mx, my, E) \<Rightarrow>
     (g - 1) * (E - 1/2 * rho * ((mx / rho)\<^sup>2 + (my / rho)\<^sup>2)))"

definition sound_speed :: "real \<Rightarrow> vec4 \<Rightarrow> real" where
  "sound_speed g u = (case u of (rho, mx, my, E) \<Rightarrow> sqrt (g * pressure g u / rho))"

definition normal_velocity :: "vec4 \<Rightarrow> vec2 \<Rightarrow> real" where
  "normal_velocity u n = (case u of (rho, mx, my, E) \<Rightarrow> case n of (nx, ny) \<Rightarrow>
     (mx / rho) * nx + (my / rho) * ny)"

definition normal_mach :: "real \<Rightarrow> vec4 \<Rightarrow> vec2 \<Rightarrow> real" where
  "normal_mach g u n = normal_velocity u n / sound_speed g u"

text \<open>A state is physically valid when its density and its derived pressure are positive.\<close>

definition valid_state :: "real \<Rightarrow> vec4 \<Rightarrow> bool" where
  "valid_state g u = (case u of (rho, mx, my, E) \<Rightarrow> 0 < rho \<and> 0 < pressure g u)"

definition unit_normal :: "vec2 \<Rightarrow> bool" where
  "unit_normal n = (case n of (nx, ny) \<Rightarrow> nx\<^sup>2 + ny\<^sup>2 = 1)"

text \<open>
  The physical (analytical) Euler flux of one state projected on the normal:
  mass, the two momenta and the energy carried through the face, plus the pressure
  force. These are the expressions of the \<^verbatim>\<open>fj[0..3]\<close> lines of \<^verbatim>\<open>RoeFlux::get_flux\<close>.
\<close>

definition physical_flux :: "real \<Rightarrow> vec4 \<Rightarrow> vec2 \<Rightarrow> vec4" where
  "physical_flux g u n = (case u of (rho, mx, my, E) \<Rightarrow> case n of (nx, ny) \<Rightarrow>
     (let vx = mx / rho; vy = my / rho;
          vn = vx * nx + vy * ny;
          p = pressure g u
      in (rho * vn, rho * vn * vx + p * nx, rho * vn * vy + p * ny, vn * (E + p))))"

section \<open>Van Leer flux-vector splitting\<close>

text \<open>
  \<^verbatim>\<open>VanLeerFlux::get_flux\<close> fills the member buffers \<^verbatim>\<open>fiplus\<close> (from the left state)
  and \<^verbatim>\<open>fjminus\<close> (from the right state) and writes their sum to \<^verbatim>\<open>flux\<close>. Each buffer
  depends on one state only, so each is a function here; the local \<^verbatim>\<open>pi\<close> is written
  \<open>p_i\<close>. The final loop runs over \<^verbatim>\<open>nvars\<close> components, the four of \<^verbatim>\<open>NVARS\<close>.
\<close>

definition VanLeer_fiplus :: "real \<Rightarrow> vec4 \<Rightarrow> vec2 \<Rightarrow> vec4" where
  "VanLeer_fiplus g ul n = (case ul of (ul0, ul1, ul2, ul3) \<Rightarrow> case n of (nx, ny) \<Rightarrow>
     (let p_i = (g - 1) * (ul3 - 0.5 * (ul1\<^sup>2 + ul2\<^sup>2) / ul0);
          ci = sqrt (g * p_i / ul0);
          vni = (ul1 * nx + ul2 * ny) / ul0;
          Mni = vni / ci
      in if Mni < -1 then (0, 0, 0, 0)
         else if Mni > 1 then
           (ul0 * vni, vni * ul1 + p_i * nx, vni * ul2 + p_i * ny, vni * (ul3 + p_i))
         else
           (let vmags = (ul1 / ul0)\<^sup>2 + (ul2 / ul0)\<^sup>2;
                f0 = ul0 * ci * (Mni + 1)\<^sup>2 / 4
            in (f0,
                f0 * (ul1 / ul0 + nx * (2 * ci - vni) / g),
                f0 * (ul2 / ul0 + ny * (2 * ci - vni) / g),
                f0 * ((vmags - vni * vni) / 2 + ((g - 1) * vni + 2 * ci)\<^sup>2 / (2 * (g * g - 1)))))))"

definition VanLeer_fjminus :: "real \<Rightarrow> vec4 \<Rightarrow> vec2 \<Rightarrow> vec4" where
  "VanLeer_fjminus g ur n = (case ur of (ur0, ur1, ur2, ur3) \<Rightarrow> case n of (nx, ny) \<Rightarrow>
     (let p_j = (g - 1) * (ur3 - 0.5 * (ur1\<^sup>2 + ur2\<^sup>2) / ur0);
          cj = sqrt (g * p_j / ur0);
          vnj = (ur1 * nx + ur2 * ny) / ur0;
          Mnj = vnj / cj
      in if Mnj > 1 then (0, 0, 0, 0)
         else if Mnj < -1 then
           (ur0 * vnj, vnj * ur1 + p_j * nx, vnj * ur2 + p_j * ny, vnj * (ur3 + p_j))
         else
           (let vmags = (ur1 / ur0)\<^sup>2 + (ur2 / ur0)\<^sup>2;
                f0 = - ur0 * cj * (Mnj - 1)\<^sup>2 / 4
            in (f0,
                f0 * (ur1 / ur0 + nx * (- 2 * cj - vnj) / g),
                f0 * (ur2 / ur0 + ny * (- 2 * cj - vnj) / g),
                f0 * ((vmags - vnj * vnj) / 2 + ((g - 1) * vnj - 2 * cj)\<^sup>2 / (2 * (g * g - 1)))))))"

definition VanLeerFlux_get_flux :: "real \<Rightarrow> vec4 \<Rightarrow> vec4 \<Rightarrow> vec2 \<Rightarrow> vec4" where
  "VanLeerFlux_get_flux g ul ur n = VanLeer_fiplus g ul n + VanLeer_fjminus g ur n"


text \<open>
  The subsonic blending polynomial of the Van Leer splitting as the specification
  writes it, for a signed sound speed \<open>c\<close>: the left contribution is stated for
  \<open>c = c\<^sub>L\<close>; the mirrored right contribution is the same polynomial at \<open>c = - c\<^sub>R\<close>.
\<close>

definition blending_polynomial :: "real \<Rightarrow> vec4 \<Rightarrow> vec2 \<Rightarrow> real \<Rightarrow> vec4" where
  "blending_polynomial g u n c = (case u of (rho, mx, my, E) \<Rightarrow> case n of (nx, ny) \<Rightarrow>
     (let ux = mx / rho; uy = my / rho;
          vn = normal_velocity u n;
          Mn = vn / c;
          f0 = rho * c * (Mn + 1)\<^sup>2 / 4
      in (f0,
          f0 * (ux + nx * (2 * c - vn) / g),
          f0 * (uy + ny * (2 * c - vn) / g),
          f0 * ((ux\<^sup>2 + uy\<^sup>2 - vn\<^sup>2) / 2 + ((g - 1) * vn + 2 * c)\<^sup>2 / (2 * (g\<^sup>2 - 1))))))"

section \<open>Roe flux-difference splitting\<close>

text \<open>
  \<^verbatim>\<open>RoeFlux::get_flux\<close> is modelled in stages. This one is the block from
  \<^verbatim>\<open>acfd_real l[4]\<close> to the last line of the Harten-Hyman entropy fix: the eigenvalues
  \<^verbatim>\<open>l[0..3]\<close> from the six locals the block reads. The source reuses one variable
  \<^verbatim>\<open>eps\<close> for the three groups; the model returns, beside the corrected eigenvalues,
  the value \<^verbatim>\<open>eps\<close> had when each group was corrected.
\<close>

definition Roe_entropy_fix ::
  "real \<Rightarrow> real \<Rightarrow> real \<Rightarrow> real \<Rightarrow> real \<Rightarrow> real
     \<Rightarrow> (real \<times> real \<times> real \<times> real) \<times> (real \<times> real \<times> real)" where
  "Roe_entropy_fix vni vnj ci cj vnij cij =
     (let l0 = vnij; l1 = vnij; l2 = vnij + cij; l3 = vnij - cij;
          eps = (0::real);
          eps = (if eps < l0 - vni then l0 - vni else eps);
          eps = (if eps < vnj - l0 then vnj - l0 else eps);
          l0 = (if \<bar>l0\<bar> < eps then eps else l0);
          l1 = (if \<bar>l1\<bar> < eps then eps else l1);
          eps01 = eps;
          eps = (0::real);
          eps = (if eps < l2 - (vni + ci) then l2 - (vni + ci) else eps);
          eps = (if eps < vnj + cj - l2 then vnj + cj - l2 else eps);
          l2 = (if \<bar>l2\<bar> < eps then eps else l2);
          eps2 = eps;
          eps = (0::real);
          eps = (if eps < l3 - (vni - ci) then l3 - (vni - ci) else eps);
          eps = (if eps < vnj - cj - l3 then vnj - cj - l3 else eps);
          l3 = (if \<bar>l3\<bar> < eps then eps else l3);
          eps3 = eps
      in ((l0, l1, l2, l3), (eps01, eps2, eps3)))"

text \<open>
  The first block of \<^verbatim>\<open>RoeFlux::get_flux\<close> computes the locals of both sides and the
  Roe averages; the record holds them under the source's names (\<^verbatim>\<open>pi\<close>, \<^verbatim>\<open>pj\<close> are
  \<open>p_i\<close>, \<open>p_j\<close>).
\<close>

record roe_locals =
  vxi :: real
  vyi :: real
  vxj :: real
  vyj :: real
  vni :: real
  vnj :: real
  vmag2i :: real
  vmag2j :: real
  p_i :: real
  p_j :: real
  ci :: real
  cj :: real
  Hi :: real
  Hj :: real
  Rij :: real
  rhoij :: real
  vxij :: real
  vyij :: real
  Hij :: real
  vm2ij :: real
  vnij :: real
  cij :: real

definition Roe_locals :: "real \<Rightarrow> vec4 \<Rightarrow> vec4 \<Rightarrow> vec2 \<Rightarrow> roe_locals" where
  "Roe_locals g ul ur n =
     (case ul of (ul0, ul1, ul2, ul3) \<Rightarrow> case ur of (ur0, ur1, ur2, ur3) \<Rightarrow>
      case n of (n0, n1) \<Rightarrow>
     (let vxi = ul1 / ul0; vyi = ul2 / ul0;
          vxj = ur1 / ur0; vyj = ur2 / ur0;
          vni = vxi * n0 + vyi * n1;
          vnj = vxj * n0 + vyj * n1;
          vmag2i = vxi * vxi + vyi * vyi;
          vmag2j = vxj * vxj + vyj * vyj;
          p_i = (g - 1) * (ul3 - 0.5 * ul0 * vmag2i);
          p_j = (g - 1) * (ur3 - 0.5 * ur0 * vmag2j);
          ci = sqrt (g * p_i / ul0);
          cj = sqrt (g * p_j / ur0);
          Hi = (ul3 + p_i) / ul0;
          Hj = (ur3 + p_j) / ur0;
          Rij = sqrt (ur0 / ul0);
          rhoij = Rij * ul0;
          vxij = (Rij * vxj + vxi) / (Rij + 1);
          vyij = (Rij * vyj + vyi) / (Rij + 1);
          Hij = (Rij * Hj + Hi) / (Rij + 1);
          vm2ij = vxij * vxij + vyij * vyij;
          vnij = vxij * n0 + vyij * n1;
          cij = sqrt ((g - 1) * (Hij - vm2ij * 0.5))
      in \<lparr> vxi = vxi, vyi = vyi, vxj = vxj, vyj = vyj, vni = vni, vnj = vnj,
           vmag2i = vmag2i, vmag2j = vmag2j, p_i = p_i, p_j = p_j, ci = ci, cj = cj,
           Hi = Hi, Hj = Hj, Rij = Rij, rhoij = rhoij, vxij = vxij, vyij = vyij,
           Hij = Hij, vm2ij = vm2ij, vnij = vnij, cij = cij \<rparr>))"

definition Roe_eigenvalues ::
  "real \<Rightarrow> vec4 \<Rightarrow> vec4 \<Rightarrow> vec2 \<Rightarrow> (real \<times> real \<times> real \<times> real) \<times> (real \<times> real \<times> real)" where
  "Roe_eigenvalues g ul ur n =
     (let s = Roe_locals g ul ur n
      in Roe_entropy_fix (vni s) (vnj s) (ci s) (cj s) (vnij s) (cij s))"

text \<open>
  The right eigenvectors (columns of \<^verbatim>\<open>r\<close>, the last two scaled by \<^verbatim>\<open>rhoij/(2.0*cij)\<close>),
  the characteristic jumps \<^verbatim>\<open>dw\<close>, and for each component \<^verbatim>\<open>ivar\<close> the value of \<^verbatim>\<open>sum\<close>
  after the inner loop over \<^verbatim>\<open>j\<close>.
\<close>

definition Roe_dissipation :: "real \<Rightarrow> vec4 \<Rightarrow> vec4 \<Rightarrow> vec2 \<Rightarrow> vec4" where
  "Roe_dissipation g ul ur n =
     (case ul of (ul0, ul1, ul2, ul3) \<Rightarrow> case ur of (ur0, ur1, ur2, ur3) \<Rightarrow>
      case n of (n0, n1) \<Rightarrow>
      case Roe_eigenvalues g ul ur n of ((l0, l1, l2, l3), eps) \<Rightarrow>
     (let s = Roe_locals g ul ur n;
          r00 = 1;               r01 = 0;               r02 = 1;                       r03 = 1;
          r10 = vxij s;          r11 = cij s * n1;      r12 = vxij s + cij s * n0;     r13 = vxij s - cij s * n0;
          r20 = vyij s;          r21 = - cij s * n0;    r22 = vyij s + cij s * n1;     r23 = vyij s - cij s * n1;
          r30 = vm2ij s * 0.5;   r31 = cij s * (vxij s * n1 - vyij s * n0);
          r32 = Hij s + cij s * vnij s;                 r33 = Hij s - cij s * vnij s;
          r02 = r02 * (rhoij s / (2 * cij s));  r03 = r03 * (rhoij s / (2 * cij s));
          r12 = r12 * (rhoij s / (2 * cij s));  r13 = r13 * (rhoij s / (2 * cij s));
          r22 = r22 * (rhoij s / (2 * cij s));  r23 = r23 * (rhoij s / (2 * cij s));
          r32 = r32 * (rhoij s / (2 * cij s));  r33 = r33 * (rhoij s / (2 * cij s));
          dw0 = (ur0 - ul0) - (p_j s - p_i s) / (cij s * cij s);
          dw1 = (vxj s - vxi s) * n1 - (vyj s - vyi s) * n0;
          dw2 = vnj s - vni s + (p_j s - p_i s) / (rhoij s * cij s);
          dw3 = - (vnj s - vni s) + (p_j s - p_i s) / (rhoij s * cij s);
          sum0 = 0 + \<bar>l0\<bar> * dw0 * r00 + \<bar>l1\<bar> * dw1 * r01 + \<bar>l2\<bar> * dw2 * r02 + \<bar>l3\<bar> * dw3 * r03;
          sum1 = 0 + \<bar>l0\<bar> * dw0 * r10 + \<bar>l1\<bar> * dw1 * r11 + \<bar>l2\<bar> * dw2 * r12 + \<bar>l3\<bar> * dw3 * r13;
          sum2 = 0 + \<bar>l0\<bar> * dw0 * r20 + \<bar>l1\<bar> * dw1 * r21 + \<bar>l2\<bar> * dw2 * r22 + \<bar>l3\<bar> * dw3 * r23;
          sum3 = 0 + \<bar>l0\<bar> * dw0 * r30 + \<bar>l1\<bar> * dw1 * r31 + \<bar>l2\<bar> * dw2 * r32 + \<bar>l3\<bar> * dw3 * r33
      in (sum0, sum1, sum2, sum3)))"

text \<open>
  The one-sided flux vectors and the final combination. The source declares
  \<^verbatim>\<open>acfd_real fi[4], fj[4];\<close> without initialiser and then assigns
  \<^verbatim>\<open>fi[0]\<close>, \<^verbatim>\<open>fi[1]\<close>, and \<^verbatim>\<open>fj[0]\<close>..\<^verbatim>\<open>fj[3]\<close>; the two statements that compute the left
  state's y-momentum and energy flux assign to \<^verbatim>\<open>fj[2]\<close> and \<^verbatim>\<open>fj[3]\<close>, which the
  statements after them on the same lines overwrite. \<^verbatim>\<open>fi[2]\<close> and \<^verbatim>\<open>fi[3]\<close> are read in
  the final loop as they were at declaration. Their indeterminate contents are the
  argument \<open>fi_init\<close> of the model.
\<close>

definition RoeFlux_get_flux :: "real \<Rightarrow> real \<times> real \<Rightarrow> vec4 \<Rightarrow> vec4 \<Rightarrow> vec2 \<Rightarrow> vec4" where
  "RoeFlux_get_flux g fi_init ul ur n =
     (case ul of (ul0, ul1, ul2, ul3) \<Rightarrow> case ur of (ur0, ur1, ur2, ur3) \<Rightarrow>
      case n of (n0, n1) \<Rightarrow> case fi_init of (fi2, fi3) \<Rightarrow>
      case Roe_dissipation g ul ur n of (sum0, sum1, sum2, sum3) \<Rightarrow>
     (let s = Roe_locals g ul ur n;
          fi0 = ul0 * vni s;                        fj0 = ur0 * vnj s;
          fi1 = ul0 * vni s * vxi s + p_i s * n0;   fj1 = ur0 * vnj s * vxj s + p_j s * n0;
          fj2 = ul0 * vni s * vyi s + p_i s * n1;   fj2 = ur0 * vnj s * vyj s + p_j s * n1;
          fj3 = vni s * (ul3 + p_i s);              fj3 = vnj s * (ur3 + p_j s)
      in (0.5 * (fi0 + fj0 - sum0),
          0.5 * (fi1 + fj1 - sum1),
          0.5 * (fi2 + fj2 - sum2),
          0.5 * (fi3 + fj3 - sum3))))"

text \<open>
  The flux that the specification gives for the Roe scheme: half of the two
  one-sided physical fluxes minus the dissipation sum.
\<close>

definition Roe_formula :: "real \<Rightarrow> vec4 \<Rightarrow> vec4 \<Rightarrow> vec2 \<Rightarrow> vec4" where
  "Roe_formula g ul ur n =
     vscale (1/2) (physical_flux g ul n + physical_flux g ur n - Roe_dissipation g ul ur n)"

section \<open>Outcome of a call\<close>

datatype error = DomainError | ConfigurationError

text \<open>
  Both \<^verbatim>\<open>get_flux\<close> bodies are straight-line arithmetic with \<^verbatim>\<open>pow\<close>, \<^verbatim>\<open>sqrt\<close> and \<^verbatim>\<open>fabs\<close>:
  they contain no \<^verbatim>\<open>throw\<close>, no test of the density or of the pressure, and no early
  \<^verbatim>\<open>return\<close>. As an error-or-value result, a call is therefore always a value.
\<close>

definition VanLeerFlux_call :: "real \<Rightarrow> vec4 \<Rightarrow> vec4 \<Rightarrow> vec2 \<Rightarrow> error + vec4" where
  "VanLeerFlux_call g ul ur n = Inr (VanLeerFlux_get_flux g ul ur n)"

definition RoeFlux_call :: "real \<Rightarrow> real \<times> real \<Rightarrow> vec4 \<Rightarrow> vec4 \<Rightarrow> vec2 \<Rightarrow> error + vec4" where
  "RoeFlux_call g fi_init ul ur n = Inr (RoeFlux_get_flux g fi_init ul ur n)"

section \<open>Rotations of the plane\<close>

text \<open>A rotation is given by the cosine and sine of its angle.\<close>

definition is_rotation :: "vec2 \<Rightarrow> bool" where
  "is_rotation q = (case q of (cs, sn) \<Rightarrow> cs\<^sup>2 + sn\<^sup>2 = 1)"

definition rotate_normal :: "vec2 \<Rightarrow> vec2 \<Rightarrow> vec2" where
  "rotate_normal q n = (case q of (cs, sn) \<Rightarrow> case n of (nx, ny) \<Rightarrow>
     (cs * nx - sn * ny, sn * nx + cs * ny))"

text \<open>Rotating a state or a flux rotates its momentum components and keeps the scalars.\<close>

definition rotate_state :: "vec2 \<Rightarrow> vec4 \<Rightarrow> vec4" where
  "rotate_state q u = (case q of (cs, sn) \<Rightarrow> case u of (rho, mx, my, E) \<Rightarrow>
     (rho, cs * mx - sn * my, sn * mx + cs * my, E))"


section \<open>Boundary states and residual assembly\<close>

text \<open>
  \<^verbatim>\<open>aspatial.hpp\<close> declares the class \<^verbatim>\<open>EulerFV\<close> with its members and the methods
  \<^verbatim>\<open>compute_boundary_state\<close> and \<^verbatim>\<open>compute_residual\<close>; the method bodies and the mesh
  class \<^verbatim>\<open>UMesh2dh\<close> are not part of the sources. The configuration below holds the
  members \<^verbatim>\<open>solid_wall_id\<close>, \<^verbatim>\<open>inflow_outflow_id\<close> and \<^verbatim>\<open>uinf\<close> of the class; a face holds
  what the specification's data model lists for it (owner cell, neighbour cell or
  boundary marker, unit normal, area).
\<close>

record bc_config =
  solid_wall_id :: int
  inflow_outflow_id :: int
  uinf :: vec4

datatype neighbour = Interior nat | Boundary int

record face =
  owner :: nat
  nbr :: neighbour
  normal :: vec2
  area :: real

definition density :: "vec4 \<Rightarrow> real" where
  "density u = (case u of (rho, mx, my, E) \<Rightarrow> rho)"

definition total_energy :: "vec4 \<Rightarrow> real" where
  "total_energy u = (case u of (rho, mx, my, E) \<Rightarrow> E)"

text \<open>The velocity component along the face, on the tangent \<open>(n\<^sub>y, - n\<^sub>x)\<close> that the Roe
  scheme uses for its tangential jump \<^verbatim>\<open>dw(1)\<close>.\<close>

definition tangential_velocity :: "vec4 \<Rightarrow> vec2 \<Rightarrow> real" where
  "tangential_velocity u n = (case u of (rho, mx, my, E) \<Rightarrow> case n of (nx, ny) \<Rightarrow>
     (mx / rho) * ny - (my / rho) * nx)"

text \<open>
  Modelled from the spec: the body of \<^verbatim>\<open>EulerFV::compute_boundary_state\<close>, which is
  declared in \<^verbatim>\<open>aspatial.hpp\<close> and defined outside the sources. Section 4.2 of the
  specification: at a solid-wall marker the ghost state is the interior state
  reflected, normal velocity negated (the velocity \<open>v\<close> becomes \<open>v - 2 (v \<cdot> n) n\<close>),
  density and energy unchanged; at an inflow/outflow marker it is the configured
  free-stream state; any other marker is a configuration error.
\<close>

definition compute_boundary_state :: "bc_config \<Rightarrow> int \<Rightarrow> vec2 \<Rightarrow> vec4 \<Rightarrow> error + vec4" where
  "compute_boundary_state cfg marker n ins =
     (case ins of (rho, mx, my, E) \<Rightarrow> case n of (nx, ny) \<Rightarrow>
      if marker = solid_wall_id cfg then
        (let vx = mx / rho; vy = my / rho;
             vn = vx * nx + vy * ny
         in Inr (rho, rho * (vx - 2 * vn * nx), rho * (vy - 2 * vn * ny), E))
      else if marker = inflow_outflow_id cfg then Inr (uinf cfg)
      else Inl ConfigurationError)"

text \<open>
  Modelled from the spec: the body of \<^verbatim>\<open>EulerFV::compute_residual\<close>, which is declared in
  \<^verbatim>\<open>aspatial.hpp\<close> and defined outside the sources. Section 4.3 of the specification:
  the residual buffer is zeroed; then, face by face, the left and right states are
  taken (the raw cell states at first order, the states of the external
  reconstruction at second order), the right state of a boundary face is resolved
  from the left one, the configured flux scheme is evaluated and scaled by the face
  area, and the scaled flux is added to the owner's residual and, at an interior
  face, subtracted from the neighbour's. The flux scheme \<open>inviflux\<close> is the
  \<^verbatim>\<open>InviscidFlux*\<close> member of the class; the reconstruction is optional. The time-step
  buffer that the same sweep fills is not part of this model. The six definitions
  that follow are the steps of that sweep.
\<close>

text \<open>Modelled from the spec: the left state of a face in \<^verbatim>\<open>compute_residual\<close>, the raw
  state of the owner cell at first order, the reconstructed one otherwise.\<close>

definition left_state :: "(vec4 list \<Rightarrow> face \<Rightarrow> vec4 \<times> vec4) option \<Rightarrow> vec4 list \<Rightarrow> face \<Rightarrow> vec4" where
  "left_state recon u f = (case recon of None \<Rightarrow> u ! owner f | Some r \<Rightarrow> fst (r u f))"

text \<open>Modelled from the spec: the right state of a face in \<^verbatim>\<open>compute_residual\<close>, the
  neighbour's state at an interior face, the resolved ghost state at a boundary face.\<close>

definition right_state ::
  "bc_config \<Rightarrow> (vec4 list \<Rightarrow> face \<Rightarrow> vec4 \<times> vec4) option \<Rightarrow> vec4 list \<Rightarrow> face \<Rightarrow> error + vec4" where
  "right_state cfg recon u f =
     (case nbr f of
        Interior j \<Rightarrow> Inr (case recon of None \<Rightarrow> u ! j | Some r \<Rightarrow> snd (r u f))
      | Boundary marker \<Rightarrow> compute_boundary_state cfg marker (normal f) (left_state recon u f))"

text \<open>Modelled from the spec: the flux of a face in \<^verbatim>\<open>compute_residual\<close>, evaluated by the
  configured scheme and scaled by the face area.\<close>

definition scaled_face_flux ::
  "(vec4 \<Rightarrow> vec4 \<Rightarrow> vec2 \<Rightarrow> vec4) \<Rightarrow> bc_config \<Rightarrow> (vec4 list \<Rightarrow> face \<Rightarrow> vec4 \<times> vec4) option
     \<Rightarrow> vec4 list \<Rightarrow> face \<Rightarrow> error + vec4" where
  "scaled_face_flux inviflux cfg recon u f =
     (case right_state cfg recon u f of
        Inl e \<Rightarrow> Inl e
      | Inr ur \<Rightarrow> Inr (vscale (area f) (inviflux (left_state recon u f) ur (normal f))))"

text \<open>Modelled from the spec: the accumulation step of \<^verbatim>\<open>compute_residual\<close>, the scaled
  flux added to the owner's residual and subtracted from the neighbour's.\<close>

definition add_face_flux :: "face \<Rightarrow> vec4 \<Rightarrow> vec4 list \<Rightarrow> vec4 list" where
  "add_face_flux f sflux residual =
     (let residual = residual[owner f := residual ! owner f + sflux]
      in case nbr f of
           Interior j \<Rightarrow> residual[j := residual ! j - sflux]
         | Boundary marker \<Rightarrow> residual)"

text \<open>Modelled from the spec: the loop of \<^verbatim>\<open>compute_residual\<close> over the faces; a boundary
  marker that cannot be resolved ends the sweep with its error.\<close>

fun accumulate :: "(face \<Rightarrow> error + vec4) \<Rightarrow> face list \<Rightarrow> vec4 list \<Rightarrow> error + vec4 list" where
  "accumulate F [] residual = Inr residual"
| "accumulate F (f # fs) residual =
     (case F f of
        Inl e \<Rightarrow> Inl e
      | Inr sflux \<Rightarrow> accumulate F fs (add_face_flux f sflux residual))"

text \<open>Modelled from the spec: \<^verbatim>\<open>compute_residual\<close> itself, the buffer zeroed and then the
  sweep.\<close>

definition compute_residual ::
  "(vec4 \<Rightarrow> vec4 \<Rightarrow> vec2 \<Rightarrow> vec4) \<Rightarrow> bc_config \<Rightarrow> (vec4 list \<Rightarrow> face \<Rightarrow> vec4 \<times> vec4) option
     \<Rightarrow> face list \<Rightarrow> vec4 list \<Rightarrow> vec4 list \<Rightarrow> error + vec4 list" where
  "compute_residual inviflux cfg recon faces u residual =
     accumulate (scaled_face_flux inviflux cfg recon u) faces (map (\<lambda>_. 0) residual)"

text \<open>
  What one face has put into one cell after a sweep that succeeded: the scaled flux
  of the face if the cell is its owner, minus the scaled flux if the cell is its
  neighbour.
\<close>

definition the_flux :: "error + vec4 \<Rightarrow> vec4" where
  "the_flux r = (case r of Inl e \<Rightarrow> 0 | Inr sflux \<Rightarrow> sflux)"

definition added_to_owner :: "(face \<Rightarrow> error + vec4) \<Rightarrow> nat \<Rightarrow> face \<Rightarrow> vec4" where
  "added_to_owner F c f = (if owner f = c then the_flux (F f) else 0)"

definition subtracted_from_neighbour :: "(face \<Rightarrow> error + vec4) \<Rightarrow> nat \<Rightarrow> face \<Rightarrow> vec4" where
  "subtracted_from_neighbour F c f = (if nbr f = Interior c then the_flux (F f) else 0)"

definition boundary_flux :: "(face \<Rightarrow> error + vec4) \<Rightarrow> face \<Rightarrow> vec4" where
  "boundary_flux F f = (case nbr f of Interior j \<Rightarrow> 0 | Boundary marker \<Rightarrow> the_flux (F f))"

definition mesh_ok :: "nat \<Rightarrow> face list \<Rightarrow> bool" where
  "mesh_ok ncells faces =
     list_all (\<lambda>f. owner f < ncells \<and> (case nbr f of Interior j \<Rightarrow> j < ncells | Boundary marker \<Rightarrow> True)) faces"

section \<open>Lemmas\<close>

subsection \<open>The Van Leer contributions on valid states\<close>

text \<open>
  For a state of positive density the locals of \<^verbatim>\<open>VanLeerFlux::get_flux\<close> are the
  derived quantities of the data model; for a valid state and \<open>\<gamma> > 1\<close> the sound speed is
  positive and \<open>c\<^sup>2 \<rho> = \<gamma> p\<close>. The algebra of the blending polynomial is done once, on
  plain reals.
\<close>

lemma vl_pressure:
  assumes "rho \<noteq> 0"
  shows "(g - 1) * (E - 0.5 * (mx\<^sup>2 + my\<^sup>2) / rho) = pressure g (rho, mx, my, E)"
  using assms by (simp add: pressure_def power2_eq_square field_simps)

lemma sound_speed_pos:
  assumes "valid_state g u" "1 < g"
  shows "0 < sound_speed g u"
  using assms by (cases u) (simp add: valid_state_def sound_speed_def)

lemma sound_speed_sq:
  assumes "valid_state g (rho, mx, my, E)" "1 < g"
  shows "(sound_speed g (rho, mx, my, E))\<^sup>2 * rho = g * pressure g (rho, mx, my, E)"
  using assms by (simp add: valid_state_def sound_speed_def)

lemma energy_of_pressure:
  assumes "1 < g"
  shows "E = pressure g (rho, mx, my, E) / (g - 1) + rho * ((mx / rho)\<^sup>2 + (my / rho)\<^sup>2) / 2"
  using assms by (simp add: pressure_def field_simps)

lemma fiplus_valid:
  assumes "valid_state g (rho, mx, my, E)"
  shows "VanLeer_fiplus g (rho, mx, my, E) (nx, ny) =
    (let p = pressure g (rho, mx, my, E); c = sound_speed g (rho, mx, my, E);
         vn = normal_velocity (rho, mx, my, E) (nx, ny);
         M = normal_mach g (rho, mx, my, E) (nx, ny)
     in if M < -1 then (0, 0, 0, 0)
        else if M > 1 then (rho * vn, vn * mx + p * nx, vn * my + p * ny, vn * (E + p))
        else (let f0 = rho * c * (M + 1)\<^sup>2 / 4
              in (f0, f0 * (mx / rho + nx * (2 * c - vn) / g),
                      f0 * (my / rho + ny * (2 * c - vn) / g),
                      f0 * (((mx / rho)\<^sup>2 + (my / rho)\<^sup>2 - vn * vn) / 2
                            + ((g - 1) * vn + 2 * c)\<^sup>2 / (2 * (g * g - 1))))))"
proof -
  have rho: "rho \<noteq> 0" using assms by (simp add: valid_state_def)
  have vn: "(mx * nx + my * ny) / rho = normal_velocity (rho, mx, my, E) (nx, ny)"
    by (simp add: normal_velocity_def add_divide_distrib)
  show ?thesis
    unfolding VanLeer_fiplus_def prod.case vl_pressure[OF rho] vn
    by (simp add: Let_def sound_speed_def normal_mach_def)
qed

lemma fjminus_valid:
  assumes "valid_state g (rho, mx, my, E)"
  shows "VanLeer_fjminus g (rho, mx, my, E) (nx, ny) =
    (let p = pressure g (rho, mx, my, E); c = sound_speed g (rho, mx, my, E);
         vn = normal_velocity (rho, mx, my, E) (nx, ny);
         M = normal_mach g (rho, mx, my, E) (nx, ny)
     in if M > 1 then (0, 0, 0, 0)
        else if M < -1 then (rho * vn, vn * mx + p * nx, vn * my + p * ny, vn * (E + p))
        else (let f0 = - rho * c * (M - 1)\<^sup>2 / 4
              in (f0, f0 * (mx / rho + nx * (- 2 * c - vn) / g),
                      f0 * (my / rho + ny * (- 2 * c - vn) / g),
                      f0 * (((mx / rho)\<^sup>2 + (my / rho)\<^sup>2 - vn * vn) / 2
                            + ((g - 1) * vn - 2 * c)\<^sup>2 / (2 * (g * g - 1))))))"
proof -
  have rho: "rho \<noteq> 0" using assms by (simp add: valid_state_def)
  have vn: "(mx * nx + my * ny) / rho = normal_velocity (rho, mx, my, E) (nx, ny)"
    by (simp add: normal_velocity_def add_divide_distrib)
  show ?thesis
    unfolding VanLeer_fjminus_def prod.case vl_pressure[OF rho] vn
    by (simp add: Let_def sound_speed_def normal_mach_def)
qed



lemma plus_poly_sonic:
  fixes g rho c p vx vy nx ny E :: real
  assumes g: "1 < g" and rho: "0 < rho" and c: "0 < c"
    and c2: "c\<^sup>2 * rho = g * p"
    and E: "E = p / (g - 1) + rho * (vx\<^sup>2 + vy\<^sup>2) / 2"
  defines "f0 \<equiv> rho * c * (c / c + 1)\<^sup>2 / 4"
  shows "f0 = rho * c"
    and "f0 * (vx + nx * (2 * c - c) / g) = rho * c * vx + p * nx"
    and "f0 * (vy + ny * (2 * c - c) / g) = rho * c * vy + p * ny"
    and "f0 * ((vx\<^sup>2 + vy\<^sup>2 - c * c) / 2 + ((g - 1) * c + 2 * c)\<^sup>2 / (2 * (g * g - 1)))
         = c * (E + p)"
proof -
  have p: "p = c\<^sup>2 * rho / g" using c2 g by (simp add: field_simps)
  show f0: "f0 = rho * c" using c by (simp add: f0_def)
  show "f0 * (vx + nx * (2 * c - c) / g) = rho * c * vx + p * nx"
    unfolding f0 p using g by (simp add: field_simps power2_eq_square)
  show "f0 * (vy + ny * (2 * c - c) / g) = rho * c * vy + p * ny"
    unfolding f0 p using g by (simp add: field_simps power2_eq_square)
  have g1: "g - 1 \<noteq> 0" "g + 1 \<noteq> 0" "g \<noteq> 0" using g by simp_all
  have gg: "g * g - 1 = (g - 1) * (g + 1)" by (simp add: algebra_simps)
  show "f0 * ((vx\<^sup>2 + vy\<^sup>2 - c * c) / 2 + ((g - 1) * c + 2 * c)\<^sup>2 / (2 * (g * g - 1)))
         = c * (E + p)"
    unfolding f0 E p gg using g1
    apply (simp add: divide_simps)
    apply (simp add: algebra_simps power2_eq_square)
    done
qed

lemma minus_poly_sonic:
  fixes g rho c p vx vy nx ny E :: real
  assumes g: "1 < g" and rho: "0 < rho" and c: "0 < c"
    and c2: "c\<^sup>2 * rho = g * p"
    and E: "E = p / (g - 1) + rho * (vx\<^sup>2 + vy\<^sup>2) / 2"
  defines "f0 \<equiv> - rho * c * ((- c) / c - 1)\<^sup>2 / 4"
  shows "f0 = rho * (- c)"
    and "f0 * (vx + nx * (- 2 * c - (- c)) / g) = rho * (- c) * vx + p * nx"
    and "f0 * (vy + ny * (- 2 * c - (- c)) / g) = rho * (- c) * vy + p * ny"
    and "f0 * ((vx\<^sup>2 + vy\<^sup>2 - (- c) * (- c)) / 2 + ((g - 1) * (- c) - 2 * c)\<^sup>2 / (2 * (g * g - 1)))
         = (- c) * (E + p)"
proof -
  have p: "p = c\<^sup>2 * rho / g" using c2 g by (simp add: field_simps)
  show f0: "f0 = rho * (- c)" using c by (simp add: f0_def)
  show "f0 * (vx + nx * (- 2 * c - (- c)) / g) = rho * (- c) * vx + p * nx"
    unfolding f0 p using g by (simp add: field_simps power2_eq_square)
  show "f0 * (vy + ny * (- 2 * c - (- c)) / g) = rho * (- c) * vy + p * ny"
    unfolding f0 p using g by (simp add: field_simps power2_eq_square)
  have g1: "g - 1 \<noteq> 0" "g + 1 \<noteq> 0" "g \<noteq> 0" using g by simp_all
  have gg: "g * g - 1 = (g - 1) * (g + 1)" by (simp add: algebra_simps)
  show "f0 * ((vx\<^sup>2 + vy\<^sup>2 - (- c) * (- c)) / 2 + ((g - 1) * (- c) - 2 * c)\<^sup>2 / (2 * (g * g - 1)))
         = (- c) * (E + p)"
    unfolding f0 E p gg using g1
    apply (simp add: divide_simps)
    apply (simp add: algebra_simps power2_eq_square)
    done
qed

lemma poly_sum:
  fixes g rho c p vx vy nx ny E vn :: real
  assumes g: "1 < g" and rho: "0 < rho" and c: "0 < c"
    and c2: "c\<^sup>2 * rho = g * p"
    and E: "E = p / (g - 1) + rho * (vx\<^sup>2 + vy\<^sup>2) / 2"
  defines "fp \<equiv> rho * c * (vn / c + 1)\<^sup>2 / 4"
    and "fm \<equiv> - rho * c * (vn / c - 1)\<^sup>2 / 4"
  shows "fp + fm = rho * vn"
    and "fp * (vx + nx * (2 * c - vn) / g) + fm * (vx + nx * (- 2 * c - vn) / g)
         = rho * vn * vx + p * nx"
    and "fp * (vy + ny * (2 * c - vn) / g) + fm * (vy + ny * (- 2 * c - vn) / g)
         = rho * vn * vy + p * ny"
    and "fp * ((vx\<^sup>2 + vy\<^sup>2 - vn * vn) / 2 + ((g - 1) * vn + 2 * c)\<^sup>2 / (2 * (g * g - 1)))
       + fm * ((vx\<^sup>2 + vy\<^sup>2 - vn * vn) / 2 + ((g - 1) * vn - 2 * c)\<^sup>2 / (2 * (g * g - 1)))
         = vn * (E + p)"
proof -
  have p: "p = c\<^sup>2 * rho / g" using c2 g by (simp add: field_simps)
  have g1: "g - 1 \<noteq> 0" "g + 1 \<noteq> 0" "g \<noteq> 0" "c \<noteq> 0" using g c by simp_all
  have gg: "g * g - 1 = (g - 1) * (g + 1)" by (simp add: algebra_simps)
  have fp: "fp = rho * (vn + c)\<^sup>2 / (4 * c)"
    using c by (simp add: fp_def field_simps power2_eq_square)
  have fm: "fm = - rho * (vn - c)\<^sup>2 / (4 * c)"
    using c by (simp add: fm_def field_simps power2_eq_square)
  show "fp + fm = rho * vn"
    unfolding fp fm using c by (simp add: field_simps power2_eq_square)
  show "fp * (vx + nx * (2 * c - vn) / g) + fm * (vx + nx * (- 2 * c - vn) / g)
         = rho * vn * vx + p * nx"
    unfolding fp fm p using g1 by (simp add: field_simps power2_eq_square)
  show "fp * (vy + ny * (2 * c - vn) / g) + fm * (vy + ny * (- 2 * c - vn) / g)
         = rho * vn * vy + p * ny"
    unfolding fp fm p using g1 by (simp add: field_simps power2_eq_square)
  show "fp * ((vx\<^sup>2 + vy\<^sup>2 - vn * vn) / 2 + ((g - 1) * vn + 2 * c)\<^sup>2 / (2 * (g * g - 1)))
       + fm * ((vx\<^sup>2 + vy\<^sup>2 - vn * vn) / 2 + ((g - 1) * vn - 2 * c)\<^sup>2 / (2 * (g * g - 1)))
         = vn * (E + p)"
    unfolding fp fm E p gg using g1
    apply (simp add: divide_simps)
    apply (simp add: algebra_simps power2_eq_square)
    done
qed


lemma valid_state_facts:
  assumes g: "1 < g" and v: "valid_state g u"
  obtains rho mx my E c p where
    "u = (rho, mx, my, E)" "0 < rho" "c = sound_speed g u" "0 < c" "p = pressure g u"
    "c\<^sup>2 * rho = g * p" "E = p / (g - 1) + rho * ((mx / rho)\<^sup>2 + (my / rho)\<^sup>2) / 2"
proof -
  obtain rho mx my E where u: "u = (rho, mx, my, E)" by (cases u) auto
  have "0 < rho" using v by (simp add: u valid_state_def)
  moreover have "0 < sound_speed g u" by (rule sound_speed_pos[OF v g])
  moreover have "(sound_speed g u)\<^sup>2 * rho = g * pressure g u"
    unfolding u by (rule sound_speed_sq[OF v[unfolded u] g])
  moreover have "E = pressure g u / (g - 1) + rho * ((mx / rho)\<^sup>2 + (my / rho)\<^sup>2) / 2"
    unfolding u by (rule energy_of_pressure[OF g])
  ultimately show thesis using that[OF u] by blast
qed

lemma physical_flux_unfold:
  "physical_flux g (rho, mx, my, E) (nx, ny) =
     (let vn = normal_velocity (rho, mx, my, E) (nx, ny); p = pressure g (rho, mx, my, E)
      in (rho * vn, rho * vn * (mx / rho) + p * nx, rho * vn * (my / rho) + p * ny, vn * (E + p)))"
  by (simp add: physical_flux_def normal_velocity_def Let_def)

lemma fiplus_supersonic:
  assumes g: "1 < g" and v: "valid_state g u" and M: "1 \<le> normal_mach g u n"
  shows "VanLeer_fiplus g u n = physical_flux g u n"
proof -
  from valid_state_facts[OF g v] obtain rho mx my E c p where
    u: "u = (rho, mx, my, E)" and rho: "0 < rho" and c_def: "c = sound_speed g u" and c: "0 < c"
    and p_def: "p = pressure g u" and c2: "c\<^sup>2 * rho = g * p"
    and E: "E = p / (g - 1) + rho * ((mx / rho)\<^sup>2 + (my / rho)\<^sup>2) / 2" by blast
  obtain nx ny where n: "n = (nx, ny)" by (cases n) auto
  define vn where "vn = normal_velocity u n"
  have Mv: "normal_mach g u n = vn / c" by (simp add: normal_mach_def vn_def c_def)
  show ?thesis
  proof (cases "1 < normal_mach g u n")
    case True
    then show ?thesis
      unfolding u n fiplus_valid[OF v[unfolded u]] physical_flux_unfold
      using rho by (simp add: Let_def)
  next
    case False
    with M have M1: "normal_mach g u n = 1" by simp
    then have vc: "vn = c" using c by (simp add: Mv)
    note ps0 = plus_poly_sonic[OF g rho c c2 E]
    note ps = ps0(1) ps0(2)[of nx] ps0(3)[of ny] ps0(4)
    show ?thesis
      unfolding u n fiplus_valid[OF v[unfolded u]] physical_flux_unfold
      using M1 ps rho c
      by (simp add: Let_def u[symmetric] n[symmetric] vn_def[symmetric] p_def[symmetric]
            c_def[symmetric] vc)
  qed
qed

lemma fiplus_zero:
  assumes g: "1 < g" and v: "valid_state g u" and M: "normal_mach g u n \<le> -1"
  shows "VanLeer_fiplus g u n = (0, 0, 0, 0)"
proof -
  obtain rho mx my E where u: "u = (rho, mx, my, E)" by (cases u) auto
  obtain nx ny where n: "n = (nx, ny)" by (cases n) auto
  show ?thesis
  proof (cases "normal_mach g u n < -1")
    case True
    then show ?thesis
      unfolding u n fiplus_valid[OF v[unfolded u]] by (simp add: Let_def)
  next
    case False
    with M have M1: "normal_mach g u n = -1" by simp
    show ?thesis
      unfolding u n fiplus_valid[OF v[unfolded u]] using M1
      by (simp add: Let_def u[symmetric] n[symmetric])
  qed
qed

lemma fjminus_supersonic:
  assumes g: "1 < g" and v: "valid_state g u" and M: "normal_mach g u n \<le> -1"
  shows "VanLeer_fjminus g u n = physical_flux g u n"
proof -
  from valid_state_facts[OF g v] obtain rho mx my E c p where
    u: "u = (rho, mx, my, E)" and rho: "0 < rho" and c_def: "c = sound_speed g u" and c: "0 < c"
    and p_def: "p = pressure g u" and c2: "c\<^sup>2 * rho = g * p"
    and E: "E = p / (g - 1) + rho * ((mx / rho)\<^sup>2 + (my / rho)\<^sup>2) / 2" by blast
  obtain nx ny where n: "n = (nx, ny)" by (cases n) auto
  define vn where "vn = normal_velocity u n"
  have Mv: "normal_mach g u n = vn / c" by (simp add: normal_mach_def vn_def c_def)
  show ?thesis
  proof (cases "normal_mach g u n < -1")
    case True
    then show ?thesis
      unfolding u n fjminus_valid[OF v[unfolded u]] physical_flux_unfold
      using rho by (simp add: Let_def)
  next
    case False
    with M have M1: "normal_mach g u n = -1" by simp
    then have vc: "vn = - c" using c by (simp add: Mv field_simps)
    note ps0 = minus_poly_sonic[OF g rho c c2 E]
    note ps = ps0(1) ps0(2)[of nx] ps0(3)[of ny] ps0(4)
    show ?thesis
      unfolding u n fjminus_valid[OF v[unfolded u]] physical_flux_unfold
      using M1 ps rho c
      by (simp add: Let_def u[symmetric] n[symmetric] vn_def[symmetric] p_def[symmetric]
            c_def[symmetric] vc)
  qed
qed

lemma fjminus_zero:
  assumes g: "1 < g" and v: "valid_state g u" and M: "1 \<le> normal_mach g u n"
  shows "VanLeer_fjminus g u n = (0, 0, 0, 0)"
proof -
  obtain rho mx my E where u: "u = (rho, mx, my, E)" by (cases u) auto
  obtain nx ny where n: "n = (nx, ny)" by (cases n) auto
  show ?thesis
  proof (cases "1 < normal_mach g u n")
    case True
    then show ?thesis
      unfolding u n fjminus_valid[OF v[unfolded u]] by (simp add: Let_def)
  next
    case False
    with M have M1: "normal_mach g u n = 1" by simp
    show ?thesis
      unfolding u n fjminus_valid[OF v[unfolded u]] using M1
      by (simp add: Let_def u[symmetric] n[symmetric])
  qed
qed

lemma VanLeer_subsonic_sum:
  assumes g: "1 < g" and v: "valid_state g u"
    and M: "- 1 \<le> normal_mach g u n" "normal_mach g u n \<le> 1"
  shows "VanLeer_fiplus g u n + VanLeer_fjminus g u n = physical_flux g u n"
proof -
  from valid_state_facts[OF g v] obtain rho mx my E c p where
    u: "u = (rho, mx, my, E)" and rho: "0 < rho" and c_def: "c = sound_speed g u" and c: "0 < c"
    and p_def: "p = pressure g u" and c2: "c\<^sup>2 * rho = g * p"
    and E: "E = p / (g - 1) + rho * ((mx / rho)\<^sup>2 + (my / rho)\<^sup>2) / 2" by blast
  obtain nx ny where n: "n = (nx, ny)" by (cases n) auto
  define vn where "vn = normal_velocity u n"
  have Mv: "normal_mach g u n = vn / c" by (simp add: normal_mach_def vn_def c_def)
  have nM: "\<not> normal_mach g u n < - 1" "\<not> 1 < normal_mach g u n" using M by simp_all
  note ps0 = poly_sum[OF g rho c c2 E]
  note ps = ps0(1)[of vn] ps0(2)[of vn nx] ps0(3)[of vn ny] ps0(4)[of vn]
  show ?thesis
    unfolding u n fiplus_valid[OF v[unfolded u]] fjminus_valid[OF v[unfolded u]]
      physical_flux_unfold
    using nM ps
    by (simp add: Let_def u[symmetric] n[symmetric] vn_def[symmetric] p_def[symmetric]
          c_def[symmetric] Mv)
qed

lemma VanLeer_consistency:
  assumes g: "1 < g" and v: "valid_state g u"
  shows "VanLeerFlux_get_flux g u u n = physical_flux g u n"
proof -
  consider "normal_mach g u n < - 1" | "1 < normal_mach g u n"
    | "- 1 \<le> normal_mach g u n" "normal_mach g u n \<le> 1" by linarith
  then show ?thesis
  proof cases
    case 1
    then have "normal_mach g u n \<le> - 1" by simp
    then show ?thesis
      by (simp add: VanLeerFlux_get_flux_def fiplus_zero[OF g v] fjminus_supersonic[OF g v]
            zero_prod_def[symmetric])
  next
    case 2
    then have "1 \<le> normal_mach g u n" by simp
    then show ?thesis
      by (simp add: VanLeerFlux_get_flux_def fiplus_supersonic[OF g v] fjminus_zero[OF g v]
            zero_prod_def[symmetric])
  next
    case 3
    then show ?thesis
      by (simp add: VanLeerFlux_get_flux_def VanLeer_subsonic_sum[OF g v])
  qed
qed

lemma blending_polynomial_mirror:
  "blending_polynomial g (rho, mx, my, E) (nx, ny) (- c) =
     (let ux = mx / rho; uy = my / rho;
          vn = normal_velocity (rho, mx, my, E) (nx, ny);
          Mn = vn / c;
          f0 = - rho * c * (Mn - 1)\<^sup>2 / 4
      in (f0,
          f0 * (ux + nx * (- 2 * c - vn) / g),
          f0 * (uy + ny * (- 2 * c - vn) / g),
          f0 * ((ux\<^sup>2 + uy\<^sup>2 - vn\<^sup>2) / 2 + ((g - 1) * vn - 2 * c)\<^sup>2 / (2 * (g\<^sup>2 - 1)))))"
proof -
  have a: "(1 - x)\<^sup>2 = (x - 1)\<^sup>2" for x :: real
    by (rule power2_commute)
  show ?thesis
    by (simp add: blending_polynomial_def Let_def a)
qed

subsection \<open>Rotation of the Van Leer flux\<close>

lemma rotation_norm:
  fixes cs sn a b :: real
  assumes "cs\<^sup>2 + sn\<^sup>2 = 1"
  shows "(cs * a - sn * b)\<^sup>2 + (sn * a + cs * b)\<^sup>2 = a\<^sup>2 + b\<^sup>2"
proof -
  have "(cs * a - sn * b)\<^sup>2 + (sn * a + cs * b)\<^sup>2 = (cs\<^sup>2 + sn\<^sup>2) * (a\<^sup>2 + b\<^sup>2)"
    by (simp add: power2_eq_square algebra_simps)
  then show ?thesis using assms by simp
qed

lemma rotation_dot:
  fixes cs sn a b x y :: real
  assumes "cs\<^sup>2 + sn\<^sup>2 = 1"
  shows "(cs * a - sn * b) * (cs * x - sn * y) + (sn * a + cs * b) * (sn * x + cs * y)
         = a * x + b * y"
proof -
  have "(cs * a - sn * b) * (cs * x - sn * y) + (sn * a + cs * b) * (sn * x + cs * y)
         = (cs\<^sup>2 + sn\<^sup>2) * (a * x + b * y)"
    by (simp add: power2_eq_square algebra_simps)
  then show ?thesis using assms by simp
qed

lemma pressure_rotate:
  assumes "is_rotation (cs, sn)"
  shows "pressure g (rho, cs * mx - sn * my, sn * mx + cs * my, E) = pressure g (rho, mx, my, E)"
proof -
  have r: "cs\<^sup>2 + sn\<^sup>2 = 1" using assms by (simp add: is_rotation_def)
  have "((cs * mx - sn * my) / rho)\<^sup>2 + ((sn * mx + cs * my) / rho)\<^sup>2
        = (mx / rho)\<^sup>2 + (my / rho)\<^sup>2"
    using rotation_norm[OF r, of "mx / rho" "my / rho"]
    by (simp add: diff_divide_distrib add_divide_distrib)
  then show ?thesis by (simp add: pressure_def)
qed

lemma normal_velocity_rotate:
  assumes "is_rotation (cs, sn)"
  shows "normal_velocity (rho, cs * mx - sn * my, sn * mx + cs * my, E)
            (cs * nx - sn * ny, sn * nx + cs * ny)
         = normal_velocity (rho, mx, my, E) (nx, ny)"
proof -
  have r: "cs\<^sup>2 + sn\<^sup>2 = 1" using assms by (simp add: is_rotation_def)
  have d: "x / rho * a + y / rho * b = (x * a + y * b) / rho" for x y a b :: real
    by (simp add: add_divide_distrib)
  show ?thesis
    unfolding normal_velocity_def prod.case d rotation_dot[OF r] by (rule refl)
qed

lemma sound_speed_rotate:
  assumes "is_rotation (cs, sn)"
  shows "sound_speed g (rho, cs * mx - sn * my, sn * mx + cs * my, E)
         = sound_speed g (rho, mx, my, E)"
  by (simp add: sound_speed_def pressure_rotate[OF assms])

lemma valid_state_rotate:
  assumes "is_rotation (cs, sn)"
  shows "valid_state g (rho, cs * mx - sn * my, sn * mx + cs * my, E)
         = valid_state g (rho, mx, my, E)"
  by (simp add: valid_state_def pressure_rotate[OF assms])

lemma speed2_rotate:
  assumes "is_rotation (cs, sn)"
  shows "((cs * mx - sn * my) / rho)\<^sup>2 + ((sn * mx + cs * my) / rho)\<^sup>2
        = (mx / rho)\<^sup>2 + (my / rho)\<^sup>2"
proof -
  have r: "cs\<^sup>2 + sn\<^sup>2 = 1" using assms by (simp add: is_rotation_def)
  show ?thesis
    using rotation_norm[OF r, of "mx / rho" "my / rho"]
    by (simp add: diff_divide_distrib add_divide_distrib)
qed

lemma fiplus_rotate:
  assumes q: "is_rotation q" and v: "valid_state g u"
  shows "VanLeer_fiplus g (rotate_state q u) (rotate_normal q n)
         = rotate_state q (VanLeer_fiplus g u n)"
proof -
  obtain rho mx my E where u: "u = (rho, mx, my, E)" by (cases u) auto
  obtain nx ny where n: "n = (nx, ny)" by (cases n) auto
  obtain cs sn where qq: "q = (cs, sn)" by (cases q) auto
  note q' = q[unfolded qq]
  note v' = v[unfolded u]
  have vr: "valid_state g (rho, cs * mx - sn * my, sn * mx + cs * my, E)"
    using v' by (simp add: valid_state_rotate[OF q'])
  show ?thesis
    unfolding u n qq rotate_state_def rotate_normal_def prod.case
      fiplus_valid[OF vr] fiplus_valid[OF v'] normal_mach_def
      pressure_rotate[OF q'] sound_speed_rotate[OF q'] normal_velocity_rotate[OF q']
      speed2_rotate[OF q']
    by (simp add: Let_def algebra_simps diff_divide_distrib add_divide_distrib)
qed

lemma fjminus_rotate:
  assumes q: "is_rotation q" and v: "valid_state g u"
  shows "VanLeer_fjminus g (rotate_state q u) (rotate_normal q n)
         = rotate_state q (VanLeer_fjminus g u n)"
proof -
  obtain rho mx my E where u: "u = (rho, mx, my, E)" by (cases u) auto
  obtain nx ny where n: "n = (nx, ny)" by (cases n) auto
  obtain cs sn where qq: "q = (cs, sn)" by (cases q) auto
  note q' = q[unfolded qq]
  note v' = v[unfolded u]
  have vr: "valid_state g (rho, cs * mx - sn * my, sn * mx + cs * my, E)"
    using v' by (simp add: valid_state_rotate[OF q'])
  show ?thesis
    unfolding u n qq rotate_state_def rotate_normal_def prod.case
      fjminus_valid[OF vr] fjminus_valid[OF v'] normal_mach_def
      pressure_rotate[OF q'] sound_speed_rotate[OF q'] normal_velocity_rotate[OF q']
      speed2_rotate[OF q']
    by (simp add: Let_def algebra_simps diff_divide_distrib add_divide_distrib)
qed

lemma rotate_state_add:
  "rotate_state q (a + b) = rotate_state q a + rotate_state q b"
  by (cases q; cases a; cases b) (simp add: rotate_state_def algebra_simps)

lemma VanLeer_rotation_invariant:
  assumes "is_rotation q" and "valid_state g ul" and "valid_state g ur"
  shows "VanLeerFlux_get_flux g (rotate_state q ul) (rotate_state q ur) (rotate_normal q n)
         = rotate_state q (VanLeerFlux_get_flux g ul ur n)"
  using assms
  by (simp add: VanLeerFlux_get_flux_def fiplus_rotate fjminus_rotate rotate_state_add)

subsection \<open>Reversal of the normal in the Van Leer flux\<close>

lemma normal_velocity_neg:
  "normal_velocity u (- nx, - ny) = - normal_velocity u (nx, ny)"
  by (cases u) (simp add: normal_velocity_def)

lemma normal_mach_neg:
  "normal_mach g u (- nx, - ny) = - normal_mach g u (nx, ny)"
  by (simp add: normal_mach_def normal_velocity_neg)

lemma fiplus_reversed:
  assumes v: "valid_state g u"
  shows "VanLeer_fiplus g u (- nx, - ny) = - VanLeer_fjminus g u (nx, ny)"
proof -
  obtain rho mx my E where u: "u = (rho, mx, my, E)" by (cases u) auto
  have a: "(1 - x)\<^sup>2 = (x - 1)\<^sup>2" for x :: real by (rule power2_commute)
  have b: "(2 * c - (g - 1) * x)\<^sup>2 = ((g - 1) * x - 2 * c)\<^sup>2" for x c :: real
    by (rule power2_commute)
  have c: "n * (- (2 * c) - x) = - (n * (2 * c + x))" for n c x :: real
    by (simp add: algebra_simps)
  show ?thesis
    unfolding u fiplus_valid[OF v[unfolded u]] fjminus_valid[OF v[unfolded u]]
      normal_velocity_neg normal_mach_neg
    by (simp add: Let_def a b c)
qed

lemma fjminus_reversed:
  assumes v: "valid_state g u"
  shows "VanLeer_fjminus g u (- nx, - ny) = - VanLeer_fiplus g u (nx, ny)"
proof -
  obtain rho mx my E where u: "u = (rho, mx, my, E)" by (cases u) auto
  have a: "(- x - 1)\<^sup>2 = (x + 1)\<^sup>2" for x :: real
    by (simp add: power2_eq_square algebra_simps)
  have b: "(- ((g - 1) * x) - 2 * c)\<^sup>2 = ((g - 1) * x + 2 * c)\<^sup>2" for x c :: real
    by (simp add: power2_eq_square algebra_simps)
  have c: "n * (2 * c - x) = - (n * (x - 2 * c))" for n c x :: real
    by (simp add: algebra_simps)
  show ?thesis
    unfolding u fiplus_valid[OF v[unfolded u]] fjminus_valid[OF v[unfolded u]]
      normal_velocity_neg normal_mach_neg
    by (simp add: Let_def a b c)
qed

subsection \<open>The Roe scheme\<close>

lemma Roe_entropy_fix_eval:
  "Roe_entropy_fix a b c d e f =
    (let eps01 = max 0 (max (e - a) (b - e));
         eps2 = max 0 (max ((e + f) - (a + c)) ((b + d) - (e + f)));
         eps3 = max 0 (max ((e - f) - (a - c)) ((b - d) - (e - f)))
     in (((if \<bar>e\<bar> < eps01 then eps01 else e), (if \<bar>e\<bar> < eps01 then eps01 else e),
          (if \<bar>e + f\<bar> < eps2 then eps2 else e + f), (if \<bar>e - f\<bar> < eps3 then eps3 else e - f)),
         (eps01, eps2, eps3)))"
proof -
  have e: "(if (if (0::real) < x then x else 0) < y then y else if 0 < x then x else 0) = max 0 (max x y)"
    for x y by (simp add: max_def)
  show ?thesis
    unfolding Roe_entropy_fix_def Let_def e by (rule refl)
qed

lemma floor_fixed: "0 \<le> eps \<Longrightarrow> eps \<le> \<bar>if \<bar>l\<bar> < eps then eps else l\<bar>" for eps l :: real
  by simp

lemma sqrt_9_4: "sqrt (9/4) = 3/2"
  by (simp add: real_sqrt_divide)

lemma Roe_locals_transonic:
  "Roe_locals (7/5) (7/5, 0, 0, 5/2) (7/5, 7, 0, 20) (1, 0) =
    \<lparr> vxi = 0, vyi = 0, vxj = 5, vyj = 0, vni = 0, vnj = 5,
           vmag2i = 0, vmag2j = 25, p_i = 1, p_j = 1, ci = 1, cj = 1,
           Hi = 5/2, Hj = 15, Rij = 1, rhoij = 7/5, vxij = 5/2, vyij = 0,
           Hij = 35/4, vm2ij = 25/4, vnij = 5/2, cij = 3/2 \<rparr>"
  by (simp add: Roe_locals_def Let_def sqrt_9_4)

text \<open>The Roe scheme on the gas at rest \<open>(\<rho>, \<rho>u, \<rho>v, E) = (1.4, 0, 0, 2.5)\<close>, of pressure 1
  and sound speed 1 for \<open>\<gamma> = 1.4\<close>, on both sides of the face.\<close>

lemma Roe_locals_rest:
  "Roe_locals (7/5) (7/5, 0, 0, 5/2) (7/5, 0, 0, 5/2) (n0, n1) =
    \<lparr> vxi = 0, vyi = 0, vxj = 0, vyj = 0, vni = 0, vnj = 0,
           vmag2i = 0, vmag2j = 0, p_i = 1, p_j = 1, ci = 1, cj = 1,
           Hi = 5/2, Hj = 5/2, Rij = 1, rhoij = 7/5, vxij = 0, vyij = 0,
           Hij = 5/2, vm2ij = 0, vnij = 0, cij = 1 \<rparr>"
  by (simp add: Roe_locals_def Let_def)

lemma Roe_eigenvalues_rest:
  "Roe_eigenvalues (7/5) (7/5, 0, 0, 5/2) (7/5, 0, 0, 5/2) (n0, n1) = ((0, 0, 1, - 1), (0, 0, 0))"
  by (simp add: Roe_eigenvalues_def Roe_locals_rest Roe_entropy_fix_eval Let_def)

lemma Roe_dissipation_rest:
  "Roe_dissipation (7/5) (7/5, 0, 0, 5/2) (7/5, 0, 0, 5/2) (n0, n1) = (0, 0, 0, 0)"
  by (simp add: Roe_dissipation_def Roe_eigenvalues_rest Roe_locals_rest Let_def)

lemma RoeFlux_rest:
  "RoeFlux_get_flux (7/5) (j2, j3) (7/5, 0, 0, 5/2) (7/5, 0, 0, 5/2) (n0, n1)
     = (0, n0, (j2 + n1) / 2, j3 / 2)"
  by (simp add: RoeFlux_get_flux_def Roe_dissipation_rest Roe_locals_rest Let_def)

lemma physical_flux_rest:
  "physical_flux (7/5) (7/5, 0, 0, 5/2) (n0, n1) = (0, n0, n1, 0)"
  by (simp add: physical_flux_def pressure_def Let_def)

lemma Roe_formula_rest:
  "Roe_formula (7/5) (7/5, 0, 0, 5/2) (7/5, 0, 0, 5/2) (n0, n1) = (0, n0, n1, 0)"
  by (simp add: Roe_formula_def physical_flux_rest Roe_dissipation_rest vscale_def)

text \<open>The y-momentum and energy components of the Roe flux, for every input: the
  unassigned entry in place of the left one-sided flux.\<close>

lemma RoeFlux_last_components:
  "fst (snd (snd (RoeFlux_get_flux g (j2, j3) ul ur n)))
     = (j2 + fst (snd (snd (physical_flux g ur n))) - fst (snd (snd (Roe_dissipation g ul ur n)))) / 2
   \<and> snd (snd (snd (RoeFlux_get_flux g (j2, j3) ul ur n)))
     = (j3 + snd (snd (snd (physical_flux g ur n))) - snd (snd (snd (Roe_dissipation g ul ur n)))) / 2"
  by (cases ul; cases ur; cases n; cases "Roe_dissipation g ul ur n")
     (simp add: RoeFlux_get_flux_def physical_flux_def Let_def Roe_locals_def pressure_def
        power2_eq_square)

text \<open>The mass and x-momentum components of the Roe flux are those of the formula, for
  every input: the two components whose left one-sided flux the code does assign.\<close>

lemma RoeFlux_first_components:
  "fst (RoeFlux_get_flux g j ul ur n) = fst (Roe_formula g ul ur n)
   \<and> fst (snd (RoeFlux_get_flux g j ul ur n)) = fst (snd (Roe_formula g ul ur n))"
  by (cases ul; cases ur; cases n; cases j; cases "Roe_dissipation g ul ur n")
     (simp add: RoeFlux_get_flux_def Roe_formula_def vscale_def physical_flux_def Let_def
        Roe_locals_def pressure_def power2_eq_square)

subsection \<open>Example states\<close>

text \<open>Three states of pressure 1 and sound speed 1 for \<open>\<gamma> = 1.4\<close>: normal Mach number 2,
  1/2 and -2 on the normal \<open>(1, 0)\<close>.\<close>

lemma pressure_examples:
  "pressure (7/5) (7/5, 14/5, 0, 53/10) = 1"
  "pressure (7/5) (7/5, - (14/5), 0, 53/10) = 1"
  "pressure (7/5) (7/5, 7/10, 0, 107/40) = 1"
  by (simp_all add: pressure_def power2_eq_square)

lemma valid_examples:
  "valid_state (7/5) (7/5, 14/5, 0, 53/10)"
  "valid_state (7/5) (7/5, - (14/5), 0, 53/10)"
  "valid_state (7/5) (7/5, 7/10, 0, 107/40)"
  by (simp_all add: valid_state_def pressure_examples)

lemma sound_speed_examples:
  "sound_speed (7/5) (7/5, 14/5, 0, 53/10) = 1"
  "sound_speed (7/5) (7/5, - (14/5), 0, 53/10) = 1"
  "sound_speed (7/5) (7/5, 7/10, 0, 107/40) = 1"
  by (simp_all add: sound_speed_def pressure_examples)

lemma normal_mach_examples:
  "normal_mach (7/5) (7/5, 14/5, 0, 53/10) (1, 0) = 2"
  "normal_mach (7/5) (7/5, 14/5, 0, 53/10) (- 1, 0) = - 2"
  "normal_mach (7/5) (7/5, - (14/5), 0, 53/10) (1, 0) = - 2"
  "normal_mach (7/5) (7/5, 7/10, 0, 107/40) (1, 0) = 1/2"
  "normal_mach (7/5) (7/5, 7/10, 0, 107/40) (- 1, 0) = - (1/2)"
  by (simp_all add: normal_mach_def normal_velocity_def sound_speed_examples)

lemma VanLeer_examples:
  "VanLeerFlux_get_flux (7/5) (7/5, 14/5, 0, 53/10) (7/5, 14/5, 0, 53/10) (- 1, 0)
     = (- (14/5), - (33/5), 0, - (63/5))"
  "VanLeerFlux_get_flux (7/5) (7/5, 14/5, 0, 53/10) (7/5, 7/10, 0, 107/40) (1, 0)
     = (217/80, 537/80, 0, 15939/1280)"
  "VanLeerFlux_get_flux (7/5) (7/5, 7/10, 0, 107/40) (7/5, 14/5, 0, 53/10) (1, 0)
     = (63/80, 99/80, 0, 2541/1280)"
  by (simp_all add: VanLeerFlux_get_flux_def fiplus_valid fjminus_valid valid_examples
        pressure_examples sound_speed_examples normal_mach_examples normal_velocity_def
        Let_def power2_eq_square)

subsection \<open>Residual assembly\<close>

lemma sum_list_add_at:
  fixes xs :: "('a::ab_group_add) list"
  shows "i < length xs \<Longrightarrow> sum_list (xs[i := xs ! i + a]) = sum_list xs + a"
proof (induction xs arbitrary: i)
  case Nil
  then show ?case by simp
next
  case (Cons x xs)
  then show ?case by (cases i) (simp_all add: algebra_simps)
qed

lemma length_add_face_flux [simp]: "length (add_face_flux f s r) = length r"
  by (simp add: add_face_flux_def Let_def split: neighbour.splits)

lemma sum_list_add_face_flux:
  assumes "owner f < length r"
    and "case nbr f of Interior j \<Rightarrow> j < length r | Boundary marker \<Rightarrow> True"
  shows "sum_list (add_face_flux f s r)
         = sum_list r + (case nbr f of Interior j \<Rightarrow> 0 | Boundary marker \<Rightarrow> s)"
proof (cases "nbr f")
  case (Interior j)
  then have j: "j < length r" using assms(2) by simp
  have "sum_list ((r[owner f := r ! owner f + s])[j := (r[owner f := r ! owner f + s]) ! j + (- s)])
        = sum_list (r[owner f := r ! owner f + s]) + (- s)"
    by (rule sum_list_add_at) (simp add: j)
  also have "\<dots> = sum_list r + s + (- s)"
    by (simp add: sum_list_add_at[OF assms(1)])
  finally show ?thesis
    by (simp add: add_face_flux_def Let_def Interior)
next
  case (Boundary m)
  then show ?thesis
    by (simp add: add_face_flux_def Let_def sum_list_add_at[OF assms(1)])
qed

lemma nth_add_face_flux:
  assumes "owner f < length r"
    and "case nbr f of Interior j \<Rightarrow> j < length r | Boundary marker \<Rightarrow> True"
    and "c < length r"
  shows "add_face_flux f s r ! c
         = r ! c + (if owner f = c then s else 0) - (if nbr f = Interior c then s else 0)"
  using assms
  by (cases "nbr f") (auto simp: add_face_flux_def Let_def nth_list_update)

lemma accumulate_length:
  "accumulate F faces r = Inr res \<Longrightarrow> length res = length r"
  by (induction faces arbitrary: r) (auto split: sum.splits)

lemma accumulate_sum:
  assumes "mesh_ok (length r) faces" and "accumulate F faces r = Inr res"
  shows "sum_list res = sum_list r + (\<Sum>f\<leftarrow>faces. boundary_flux F f)"
  using assms
proof (induction faces arbitrary: r)
  case Nil
  then show ?case by simp
next
  case (Cons f fs)
  from Cons.prems(2) obtain s where s: "F f = Inr s"
    and rest: "accumulate F fs (add_face_flux f s r) = Inr res"
    by (auto split: sum.splits)
  from Cons.prems(1) have f: "owner f < length r"
    "case nbr f of Interior j \<Rightarrow> j < length r | Boundary marker \<Rightarrow> True"
    and fs: "mesh_ok (length (add_face_flux f s r)) fs"
    by (simp_all add: mesh_ok_def)
  have "sum_list res = sum_list (add_face_flux f s r) + (\<Sum>f\<leftarrow>fs. boundary_flux F f)"
    by (rule Cons.IH[OF fs rest])
  also have "sum_list (add_face_flux f s r) = sum_list r + boundary_flux F f"
    by (simp add: sum_list_add_face_flux[OF f] boundary_flux_def the_flux_def s
          split: neighbour.splits)
  finally show ?case by (simp add: add.assoc)
qed

lemma accumulate_nth:
  assumes "mesh_ok (length r) faces" and "accumulate F faces r = Inr res" and "c < length r"
  shows "res ! c = r ! c + (\<Sum>f\<leftarrow>faces. added_to_owner F c f - subtracted_from_neighbour F c f)"
  using assms
proof (induction faces arbitrary: r)
  case Nil
  then show ?case by simp
next
  case (Cons f fs)
  from Cons.prems(2) obtain s where s: "F f = Inr s"
    and rest: "accumulate F fs (add_face_flux f s r) = Inr res"
    by (auto split: sum.splits)
  from Cons.prems(1) have f: "owner f < length r"
    "case nbr f of Interior j \<Rightarrow> j < length r | Boundary marker \<Rightarrow> True"
    and fs: "mesh_ok (length (add_face_flux f s r)) fs"
    by (simp_all add: mesh_ok_def)
  have c: "c < length (add_face_flux f s r)" using Cons.prems(3) by simp
  have "res ! c = add_face_flux f s r ! c
          + (\<Sum>f\<leftarrow>fs. added_to_owner F c f - subtracted_from_neighbour F c f)"
    by (rule Cons.IH[OF fs rest c])
  also have "add_face_flux f s r ! c
          = r ! c + (added_to_owner F c f - subtracted_from_neighbour F c f)"
    by (simp add: nth_add_face_flux[OF f Cons.prems(3)] added_to_owner_def
          subtracted_from_neighbour_def the_flux_def s)
  finally show ?case by (simp add: add.assoc)
qed

lemma sum_list_zeros: "sum_list (map (\<lambda>_. 0) xs) = (0 :: 'a :: monoid_add)"
  by (induction xs) simp_all


section \<open>Claims\<close>

text \<open>
  C1. For physically valid left and right states and a unit normal, the flux returned
  by the Roe scheme should be half of (left one-sided physical flux + right one-sided
  physical flux - the sum over the four characteristic fields of
  \<open>|\<lambda>\<^sub>k| \<Delta>w\<^sub>k r\<^sub>k\<close>). The code computes the left state's y-momentum and energy flux but
  stores them in \<^verbatim>\<open>fj[2]\<close>, \<^verbatim>\<open>fj[3]\<close>, where they are overwritten; \<^verbatim>\<open>fi[2]\<close>, \<^verbatim>\<open>fi[3]\<close>
  stay as declared. For the gas at rest on both sides and the normal \<open>(0, 1)\<close> the
  formula gives the pressure force \<open>(0, 0, 1, 0)\<close>; the code, with zeros in the
  unassigned entries, returns \<open>(0, 0, 1/2, 0)\<close>, and no content of the two entries
  makes the code agree with the formula on both normals \<open>(0, 1)\<close> and \<open>(1, 0)\<close>.
\<close>

theorem RoeFlux_left_flux_dropped:
  "RoeFlux_get_flux (7/5) (0, 0) (7/5, 0, 0, 5/2) (7/5, 0, 0, 5/2) (0, 1) = (0, 0, 1/2, 0)
   \<and> Roe_formula (7/5) (7/5, 0, 0, 5/2) (7/5, 0, 0, 5/2) (0, 1) = (0, 0, 1, 0)
   \<and> (\<forall>j. \<not> (RoeFlux_get_flux (7/5) j (7/5, 0, 0, 5/2) (7/5, 0, 0, 5/2) (0, 1)
                  = Roe_formula (7/5) (7/5, 0, 0, 5/2) (7/5, 0, 0, 5/2) (0, 1)
              \<and> RoeFlux_get_flux (7/5) j (7/5, 0, 0, 5/2) (7/5, 0, 0, 5/2) (1, 0)
                  = Roe_formula (7/5) (7/5, 0, 0, 5/2) (7/5, 0, 0, 5/2) (1, 0)))"
  by (simp add: RoeFlux_rest Roe_formula_rest split_paired_all)

text \<open>
  C2. With the same valid state on both sides, \<^verbatim>\<open>get_flux\<close> should return the physical
  flux of that state, for both schemes. The Van Leer scheme does (lemma
  \<open>VanLeer_consistency\<close>). The Roe scheme does not: for the gas at rest and the normal
  \<open>(0, 1)\<close> the physical flux is \<open>(0, 0, 1, 0)\<close> and the code, with zeros in the
  unassigned \<^verbatim>\<open>fi[2]\<close>, \<^verbatim>\<open>fi[3]\<close>, returns \<open>(0, 0, 1/2, 0)\<close>.
\<close>

theorem RoeFlux_not_consistent:
  "valid_state (7/5) (7/5, 0, 0, 5/2) \<and> unit_normal (0, 1)
   \<and> RoeFlux_get_flux (7/5) (0, 0) (7/5, 0, 0, 5/2) (7/5, 0, 0, 5/2) (0, 1) = (0, 0, 1/2, 0)
   \<and> physical_flux (7/5) (7/5, 0, 0, 5/2) (0, 1) = (0, 0, 1, 0)"
  by (simp add: RoeFlux_rest physical_flux_rest valid_state_def pressure_def unit_normal_def)

text \<open>
  C3. Supersonic reduction of the Van Leer splitting. For valid states: if the left
  normal Mach number is at least 1 the left contribution \<^verbatim>\<open>fiplus\<close> is the left state's
  physical flux, if it is at most -1 the left contribution is the zero vector; if the
  right normal Mach number is at most -1 the right contribution \<^verbatim>\<open>fjminus\<close> is the right
  state's physical flux, if it is at least 1 it is the zero vector; so with both sides
  supersonic in the same direction the whole flux is the upwind state's physical flux.
\<close>

theorem VanLeer_supersonic_reduction:
  assumes "1 < g" and "valid_state g ul" and "valid_state g ur"
  shows "(1 \<le> normal_mach g ul n \<longrightarrow> VanLeer_fiplus g ul n = physical_flux g ul n)
       \<and> (normal_mach g ul n \<le> - 1 \<longrightarrow> VanLeer_fiplus g ul n = (0, 0, 0, 0))
       \<and> (normal_mach g ur n \<le> - 1 \<longrightarrow> VanLeer_fjminus g ur n = physical_flux g ur n)
       \<and> (1 \<le> normal_mach g ur n \<longrightarrow> VanLeer_fjminus g ur n = (0, 0, 0, 0))
       \<and> (1 \<le> normal_mach g ul n \<and> 1 \<le> normal_mach g ur n
            \<longrightarrow> VanLeerFlux_get_flux g ul ur n = physical_flux g ul n)
       \<and> (normal_mach g ul n \<le> - 1 \<and> normal_mach g ur n \<le> - 1
            \<longrightarrow> VanLeerFlux_get_flux g ul ur n = physical_flux g ur n)"
  using assms
  by (simp add: VanLeerFlux_get_flux_def fiplus_supersonic fiplus_zero fjminus_supersonic
        fjminus_zero zero_prod_def[symmetric])

theorem VanLeer_supersonic_reduction_witness:
  "1 < (7/5 :: real)
   \<and> valid_state (7/5) (7/5, 14/5, 0, 53/10) \<and> valid_state (7/5) (7/5, - (14/5), 0, 53/10)
   \<and> 1 \<le> normal_mach (7/5) (7/5, 14/5, 0, 53/10) (1, 0)
   \<and> normal_mach (7/5) (7/5, - (14/5), 0, 53/10) (1, 0) \<le> - 1
   \<and> VanLeer_fiplus (7/5) (7/5, 14/5, 0, 53/10) (1, 0) = physical_flux (7/5) (7/5, 14/5, 0, 53/10) (1, 0)
   \<and> VanLeer_fjminus (7/5) (7/5, 14/5, 0, 53/10) (1, 0) = (0, 0, 0, 0)
   \<and> VanLeerFlux_get_flux (7/5) (7/5, 14/5, 0, 53/10) (7/5, 14/5, 0, 53/10) (1, 0)
       = physical_flux (7/5) (7/5, 14/5, 0, 53/10) (1, 0)
   \<and> VanLeer_fiplus (7/5) (7/5, - (14/5), 0, 53/10) (1, 0) = (0, 0, 0, 0)
   \<and> VanLeer_fjminus (7/5) (7/5, - (14/5), 0, 53/10) (1, 0)
       = physical_flux (7/5) (7/5, - (14/5), 0, 53/10) (1, 0)
   \<and> VanLeerFlux_get_flux (7/5) (7/5, - (14/5), 0, 53/10) (7/5, - (14/5), 0, 53/10) (1, 0)
       = physical_flux (7/5) (7/5, - (14/5), 0, 53/10) (1, 0)
   \<and> physical_flux (7/5) (7/5, 14/5, 0, 53/10) (1, 0) = (14/5, 33/5, 0, 63/5)"
proof -
  have g: "1 < (7/5 :: real)" by simp
  have v1: "valid_state (7/5) (7/5, 14/5, 0, 53/10)"
    by (simp add: valid_state_def pressure_def power2_eq_square)
  have v2: "valid_state (7/5) (7/5, - (14/5), 0, 53/10)"
    by (simp add: valid_state_def pressure_def power2_eq_square)
  have p1: "pressure (7/5) (7/5, 14/5, 0, 53/10) = 1"
    by (simp add: pressure_def power2_eq_square)
  have p2: "pressure (7/5) (7/5, - (14/5), 0, 53/10) = 1"
    by (simp add: pressure_def power2_eq_square)
  have m1: "normal_mach (7/5) (7/5, 14/5, 0, 53/10) (1, 0) = 2"
    by (simp add: normal_mach_def normal_velocity_def sound_speed_def p1)
  have m2: "normal_mach (7/5) (7/5, - (14/5), 0, 53/10) (1, 0) = - 2"
    by (simp add: normal_mach_def normal_velocity_def sound_speed_def p2)
  have pf: "physical_flux (7/5) (7/5, 14/5, 0, 53/10) (1, 0) = (14/5, 33/5, 0, 63/5)"
    by (simp add: physical_flux_def p1 Let_def)
  show ?thesis
    using VanLeer_supersonic_reduction[OF g v1 v1, of "(1, 0)"]
      VanLeer_supersonic_reduction[OF g v2 v2, of "(1, 0)"] g v1 v2 pf
    by (simp add: m1 m2)
qed

text \<open>
  C4. Subsonic branch of the Van Leer splitting. For a valid left state with normal
  Mach number in \<open>[-1, 1]\<close> the left contribution is the blending polynomial
  \<open>f0 = \<rho> c (Mn + 1)\<^sup>2 / 4\<close>, \<open>f1 = f0 (u + n\<^sub>x (2c - v\<^sub>n) / \<gamma>)\<close>,
  \<open>f2 = f0 (v + n\<^sub>y (2c - v\<^sub>n) / \<gamma>)\<close>,
  \<open>f3 = f0 ((|v|\<^sup>2 - v\<^sub>n\<^sup>2) / 2 + ((\<gamma> - 1) v\<^sub>n + 2c)\<^sup>2 / (2 (\<gamma>\<^sup>2 - 1)))\<close>; for a valid right
  state with normal Mach number in \<open>[-1, 1]\<close> the right contribution is the mirrored
  polynomial, the same expressions with \<open>- c\<close> for \<open>c\<close>, whose mass component is
  \<open>- \<rho> c (Mn - 1)\<^sup>2 / 4\<close>.
\<close>

theorem VanLeer_subsonic_blending:
  assumes "1 < g" and "valid_state g ul" and "valid_state g ur"
  shows "(- 1 \<le> normal_mach g ul n \<and> normal_mach g ul n \<le> 1
            \<longrightarrow> VanLeer_fiplus g ul n = blending_polynomial g ul n (sound_speed g ul))
       \<and> (- 1 \<le> normal_mach g ur n \<and> normal_mach g ur n \<le> 1
            \<longrightarrow> VanLeer_fjminus g ur n = blending_polynomial g ur n (- sound_speed g ur)
              \<and> fst (VanLeer_fjminus g ur n)
                  = - density ur * sound_speed g ur * (normal_mach g ur n - 1)\<^sup>2 / 4)"
proof -
  obtain rl ml nl El where ul: "ul = (rl, ml, nl, El)" by (cases ul) auto
  obtain rr mr nr Er where ur: "ur = (rr, mr, nr, Er)" by (cases ur) auto
  obtain nx ny where n: "n = (nx, ny)" by (cases n) auto
  have "VanLeer_fiplus g ul n = blending_polynomial g ul n (sound_speed g ul)"
    if "- 1 \<le> normal_mach g ul n" "normal_mach g ul n \<le> 1"
    using that unfolding ul n fiplus_valid[OF assms(2)[unfolded ul]]
    by (simp add: Let_def blending_polynomial_def normal_mach_def power2_eq_square)
  moreover have "VanLeer_fjminus g ur n = blending_polynomial g ur n (- sound_speed g ur)"
    if "- 1 \<le> normal_mach g ur n" "normal_mach g ur n \<le> 1"
    using that unfolding ur n fjminus_valid[OF assms(3)[unfolded ur]] blending_polynomial_mirror
    by (simp add: Let_def normal_mach_def power2_eq_square)
  moreover have "fst (VanLeer_fjminus g ur n)
                  = - density ur * sound_speed g ur * (normal_mach g ur n - 1)\<^sup>2 / 4"
    if "- 1 \<le> normal_mach g ur n" "normal_mach g ur n \<le> 1"
    using that unfolding ur n fjminus_valid[OF assms(3)[unfolded ur]]
    by (simp add: Let_def density_def)
  ultimately show ?thesis by blast
qed

theorem VanLeer_subsonic_blending_witness:
  "1 < (7/5 :: real) \<and> valid_state (7/5) (7/5, 7/10, 0, 107/40)
   \<and> - 1 \<le> normal_mach (7/5) (7/5, 7/10, 0, 107/40) (1, 0)
   \<and> normal_mach (7/5) (7/5, 7/10, 0, 107/40) (1, 0) \<le> 1
   \<and> VanLeer_fiplus (7/5) (7/5, 7/10, 0, 107/40) (1, 0)
       = blending_polynomial (7/5) (7/5, 7/10, 0, 107/40) (1, 0) 1
   \<and> VanLeer_fjminus (7/5) (7/5, 7/10, 0, 107/40) (1, 0)
       = blending_polynomial (7/5) (7/5, 7/10, 0, 107/40) (1, 0) (- 1)
   \<and> blending_polynomial (7/5) (7/5, 7/10, 0, 107/40) (1, 0) 1 = (63/80, 99/80, 0, 2541/1280)"
proof -
  have g: "1 < (7/5 :: real)" by simp
  have p1: "pressure (7/5) (7/5, 7/10, 0, 107/40) = 1"
    by (simp add: pressure_def power2_eq_square)
  have v1: "valid_state (7/5) (7/5, 7/10, 0, 107/40)"
    by (simp add: valid_state_def p1)
  have c1: "sound_speed (7/5) (7/5, 7/10, 0, 107/40) = 1"
    by (simp add: sound_speed_def p1)
  have m1: "normal_mach (7/5) (7/5, 7/10, 0, 107/40) (1, 0) = 1/2"
    by (simp add: normal_mach_def normal_velocity_def c1)
  have bp: "blending_polynomial (7/5) (7/5, 7/10, 0, 107/40) (1, 0) 1 = (63/80, 99/80, 0, 2541/1280)"
    by (simp add: blending_polynomial_def normal_velocity_def Let_def power2_eq_square)
  show ?thesis
    using VanLeer_subsonic_blending[OF g v1 v1, of "(1, 0)"] g v1 bp
    by (simp add: m1 c1)
qed

text \<open>
  C5. Harten-Hyman entropy fix of the Roe scheme. For each of the three groups of
  eigenvalues (\<open>{v\<^sub>n, v\<^sub>n}\<close>, \<open>{v\<^sub>n + c}\<close>, \<open>{v\<^sub>n - c}\<close> of the Roe average) epsilon is the
  maximum of 0, the eigenvalue minus the left characteristic speed, and the right
  characteristic speed minus the eigenvalue; an eigenvalue whose magnitude is below
  its epsilon is replaced by epsilon; so every eigenvalue the dissipation sum uses
  has magnitude at least the epsilon of its group. This holds for all inputs. The
  instance after it is a transonic expansion: the characteristic speed \<open>v\<^sub>n - c\<close> is
  -1 on the left and 4 on the right, the averaged one is 1 and is raised to
  epsilon = 3.
\<close>

theorem Roe_entropy_fix_floor:
  "case Roe_eigenvalues g ul ur n of ((l0, l1, l2, l3), (eps01, eps2, eps3)) \<Rightarrow>
     (let s = Roe_locals g ul ur n
      in eps01 = max 0 (max (vnij s - vni s) (vnj s - vnij s))
       \<and> eps2 = max 0 (max ((vnij s + cij s) - (vni s + ci s)) ((vnj s + cj s) - (vnij s + cij s)))
       \<and> eps3 = max 0 (max ((vnij s - cij s) - (vni s - ci s)) ((vnj s - cj s) - (vnij s - cij s)))
       \<and> l0 = (if \<bar>vnij s\<bar> < eps01 then eps01 else vnij s)
       \<and> l1 = (if \<bar>vnij s\<bar> < eps01 then eps01 else vnij s)
       \<and> l2 = (if \<bar>vnij s + cij s\<bar> < eps2 then eps2 else vnij s + cij s)
       \<and> l3 = (if \<bar>vnij s - cij s\<bar> < eps3 then eps3 else vnij s - cij s)
       \<and> eps01 \<le> \<bar>l0\<bar> \<and> eps01 \<le> \<bar>l1\<bar> \<and> eps2 \<le> \<bar>l2\<bar> \<and> eps3 \<le> \<bar>l3\<bar>)"
  unfolding Roe_eigenvalues_def Roe_entropy_fix_eval Let_def prod.case
  by (intro conjI refl floor_fixed max.cobounded1)

theorem Roe_entropy_fix_floor_witness:
  "valid_state (7/5) (7/5, 0, 0, 5/2) \<and> valid_state (7/5) (7/5, 7, 0, 20)
   \<and> Roe_eigenvalues (7/5) (7/5, 0, 0, 5/2) (7/5, 7, 0, 20) (1, 0)
       = ((5/2, 5/2, 4, 3), (5/2, 3, 3))"
proof -
  obtain l0 l1 l2 l3 e01 e2 e3 where
    r: "Roe_eigenvalues (7/5) (7/5, 0, 0, 5/2) (7/5, 7, 0, 20) (1, 0) = ((l0, l1, l2, l3), (e01, e2, e3))"
    by (metis prod.exhaust)
  have v: "valid_state (7/5) (7/5, 0, 0, 5/2)" "valid_state (7/5) (7/5, 7, 0, 20)"
    by (simp_all add: valid_state_def pressure_def power2_eq_square)
  have "((l0, l1, l2, l3), (e01, e2, e3)) = ((5/2, 5/2, 4, 3), (5/2, 3, 3))"
    using Roe_entropy_fix_floor[of "7/5" "(7/5, 0, 0, 5/2)" "(7/5, 7, 0, 20)" "(1, 0)"]
    unfolding r prod.case Let_def Roe_locals_transonic
    by simp
  then show ?thesis using v by (simp add: r)
qed

text \<open>
  C6. The claim: when a density is not positive or a derived pressure is not positive,
  \<^verbatim>\<open>get_flux\<close> of both schemes fails with a DomainError. Neither body tests the state or
  raises anything. At density -1.4 and pressure -1 on both sides every intermediate
  value is a finite real (the sound speed is the square root of 1), and both schemes
  return the flux \<open>(0, -1, 0, 0)\<close>.
\<close>

theorem get_flux_DomainError_counterexample:
  "\<not> valid_state (7/5) (- (7/5), 0, 0, - (5/2))
   \<and> VanLeerFlux_call (7/5) (- (7/5), 0, 0, - (5/2)) (- (7/5), 0, 0, - (5/2)) (1, 0)
       = Inr (0, - 1, 0, 0)
   \<and> VanLeerFlux_call (7/5) (- (7/5), 0, 0, - (5/2)) (- (7/5), 0, 0, - (5/2)) (1, 0)
       \<noteq> Inl DomainError
   \<and> RoeFlux_call (7/5) (0, 0) (- (7/5), 0, 0, - (5/2)) (- (7/5), 0, 0, - (5/2)) (1, 0)
       = Inr (0, - 1, 0, 0)
   \<and> RoeFlux_call (7/5) (0, 0) (- (7/5), 0, 0, - (5/2)) (- (7/5), 0, 0, - (5/2)) (1, 0)
       \<noteq> Inl DomainError"
proof -
  have nv: "\<not> valid_state (7/5) (- (7/5), 0, 0, - (5/2))"
    by (simp add: valid_state_def)
  have vl: "VanLeerFlux_get_flux (7/5) (- (7/5), 0, 0, - (5/2)) (- (7/5), 0, 0, - (5/2)) (1, 0)
            = (0, - 1, 0, 0)"
    by (simp add: VanLeerFlux_get_flux_def VanLeer_fiplus_def VanLeer_fjminus_def Let_def
          power2_eq_square)
  have lo: "Roe_locals (7/5) (- (7/5), 0, 0, - (5/2)) (- (7/5), 0, 0, - (5/2)) (1, 0) =
    \<lparr> vxi = 0, vyi = 0, vxj = 0, vyj = 0, vni = 0, vnj = 0,
           vmag2i = 0, vmag2j = 0, p_i = - 1, p_j = - 1, ci = 1, cj = 1,
           Hi = 5/2, Hj = 5/2, Rij = 1, rhoij = - (7/5), vxij = 0, vyij = 0,
           Hij = 5/2, vm2ij = 0, vnij = 0, cij = 1 \<rparr>"
    by (simp add: Roe_locals_def Let_def)
  have ev: "Roe_eigenvalues (7/5) (- (7/5), 0, 0, - (5/2)) (- (7/5), 0, 0, - (5/2)) (1, 0)
            = ((0, 0, 1, - 1), (0, 0, 0))"
    by (simp add: Roe_eigenvalues_def lo Roe_entropy_fix_eval Let_def)
  have di: "Roe_dissipation (7/5) (- (7/5), 0, 0, - (5/2)) (- (7/5), 0, 0, - (5/2)) (1, 0)
            = (0, 0, 0, 0)"
    by (simp add: Roe_dissipation_def ev lo Let_def)
  have roe: "RoeFlux_get_flux (7/5) (0, 0) (- (7/5), 0, 0, - (5/2)) (- (7/5), 0, 0, - (5/2)) (1, 0)
            = (0, - 1, 0, 0)"
    by (simp add: RoeFlux_get_flux_def di lo Let_def)
  show ?thesis
    using nv by (simp add: VanLeerFlux_call_def RoeFlux_call_def vl roe)
qed

text \<open>
  C6, as the code has it: \<^verbatim>\<open>get_flux\<close> performs no validity check. For every input in
  which a density or a derived pressure is not positive, both schemes complete and
  return the flux vector that their formulas give; no DomainError is raised.
\<close>

theorem get_flux_no_validity_check:
  assumes "\<not> (valid_state g ul \<and> valid_state g ur)"
  shows "VanLeerFlux_call g ul ur n = Inr (VanLeerFlux_get_flux g ul ur n)
       \<and> VanLeerFlux_call g ul ur n \<noteq> Inl DomainError
       \<and> RoeFlux_call g fi_init ul ur n = Inr (RoeFlux_get_flux g fi_init ul ur n)
       \<and> RoeFlux_call g fi_init ul ur n \<noteq> Inl DomainError"
  by (simp add: VanLeerFlux_call_def RoeFlux_call_def)

theorem get_flux_no_validity_check_witness:
  "\<not> (valid_state (7/5) (7/5, 0, 0, 5/2) \<and> valid_state (7/5) (- (7/5), 0, 0, - (5/2)))
   \<and> VanLeerFlux_call (7/5) (7/5, 0, 0, 5/2) (- (7/5), 0, 0, - (5/2)) (1, 0)
       = Inr (7/10, 0, 0, 35/24)
   \<and> RoeFlux_call (7/5) (0, 0) (7/5, 0, 0, 5/2) (- (7/5), 0, 0, - (5/2)) (1, 0)
       \<noteq> Inl DomainError"
proof -
  have nv: "\<not> (valid_state (7/5) (7/5, 0, 0, 5/2) \<and> valid_state (7/5) (- (7/5), 0, 0, - (5/2)))"
    by (simp add: valid_state_def)
  have vl: "VanLeerFlux_get_flux (7/5) (7/5, 0, 0, 5/2) (- (7/5), 0, 0, - (5/2)) (1, 0)
            = (7/10, 0, 0, 35/24)"
    by (simp add: VanLeerFlux_get_flux_def VanLeer_fiplus_def VanLeer_fjminus_def Let_def
          power2_eq_square)
  show ?thesis
    using get_flux_no_validity_check[OF nv, of "(1, 0)" "(0, 0)"] nv
    by (simp add: vl)
qed

text \<open>
  C7. Conservation of the residual assembly. After a sweep that succeeded on a mesh
  whose faces name existing cells, the residual of every cell is the sum, over the
  faces, of the scaled flux added when the cell is the owner minus the scaled flux
  subtracted when the cell is the neighbour; boundary faces reach their owner only.
  Summed over all cells the interior faces cancel: the total is the sum of the
  boundary faces' scaled fluxes. The buffer is zeroed first, so the result is the
  same whatever the buffer held before the call.
\<close>

theorem compute_residual_conservative:
  assumes "mesh_ok (length residual) faces"
    and "compute_residual inviflux cfg recon faces u residual = Inr res"
  shows "length res = length residual
       \<and> (\<forall>c < length residual. res ! c =
            (\<Sum>f\<leftarrow>faces. added_to_owner (scaled_face_flux inviflux cfg recon u) c f
                        - subtracted_from_neighbour (scaled_face_flux inviflux cfg recon u) c f))
       \<and> sum_list res = (\<Sum>f\<leftarrow>faces. boundary_flux (scaled_face_flux inviflux cfg recon u) f)
       \<and> (\<forall>residual'. length residual' = length residual \<longrightarrow>
            compute_residual inviflux cfg recon faces u residual' = Inr res)"
proof -
  let ?F = "scaled_face_flux inviflux cfg recon u"
  let ?z = "map (\<lambda>_. 0) residual :: vec4 list"
  have acc: "accumulate ?F faces ?z = Inr res"
    using assms(2) by (simp add: compute_residual_def)
  have ok: "mesh_ok (length ?z) faces" using assms(1) by simp
  have 1: "length res = length residual"
    using accumulate_length[OF acc] by simp
  have 2: "res ! c = (\<Sum>f\<leftarrow>faces. added_to_owner ?F c f - subtracted_from_neighbour ?F c f)"
    if "c < length residual" for c
    using accumulate_nth[OF ok acc, of c] that by simp
  have 3: "sum_list res = (\<Sum>f\<leftarrow>faces. boundary_flux ?F f)"
    using accumulate_sum[OF ok acc] by (simp add: sum_list_zeros)
  have 4: "compute_residual inviflux cfg recon faces u residual' = Inr res"
    if "length residual' = length residual" for residual'
  proof -
    have "map (\<lambda>_. 0 :: vec4) residual' = map (\<lambda>_. 0) residual"
      using that by (simp add: map_replicate_const)
    then show ?thesis using acc by (simp add: compute_residual_def)
  qed
  show ?thesis using 1 2 3 4 by blast
qed

theorem compute_residual_conservative_witness:
  "mesh_ok 2
     [\<lparr>owner = 0, nbr = Boundary 4, normal = (- 1, 0), area = 2\<rparr>,
      \<lparr>owner = 0, nbr = Interior 1, normal = (1, 0), area = 2\<rparr>,
      \<lparr>owner = 1, nbr = Boundary 4, normal = (1, 0), area = 2\<rparr>]
   \<and> compute_residual (VanLeerFlux_get_flux (7/5))
       \<lparr>solid_wall_id = 2, inflow_outflow_id = 4, uinf = (7/5, 14/5, 0, 53/10)\<rparr> None
       [\<lparr>owner = 0, nbr = Boundary 4, normal = (- 1, 0), area = 2\<rparr>,
        \<lparr>owner = 0, nbr = Interior 1, normal = (1, 0), area = 2\<rparr>,
        \<lparr>owner = 1, nbr = Boundary 4, normal = (1, 0), area = 2\<rparr>]
       [(7/5, 14/5, 0, 53/10), (7/5, 7/10, 0, 107/40)]
       [(1, 1, 1, 1), (2, 2, 2, 2)]
     = Inr [(- (7/40), 9/40, 0, - (189/640)), (- (77/20), - (219/20), 0, - (6699/320))]
   \<and> sum_list [(- (7/40), 9/40, 0, - (189/640)), (- (77/20), - (219/20), 0, - (6699/320)) :: vec4]
     = (\<Sum>f\<leftarrow>[\<lparr>owner = 0, nbr = Boundary 4, normal = (- 1, 0), area = 2\<rparr>,
              \<lparr>owner = 0, nbr = Interior 1, normal = (1, 0), area = 2\<rparr>,
              \<lparr>owner = 1, nbr = Boundary 4, normal = (1, 0), area = 2\<rparr>].
          boundary_flux (scaled_face_flux (VanLeerFlux_get_flux (7/5))
            \<lparr>solid_wall_id = 2, inflow_outflow_id = 4, uinf = (7/5, 14/5, 0, 53/10)\<rparr> None
            [(7/5, 14/5, 0, 53/10), (7/5, 7/10, 0, 107/40)]) f)
   \<and> compute_residual (VanLeerFlux_get_flux (7/5))
       \<lparr>solid_wall_id = 2, inflow_outflow_id = 4, uinf = (7/5, 14/5, 0, 53/10)\<rparr> None
       [\<lparr>owner = 0, nbr = Boundary 4, normal = (- 1, 0), area = 2\<rparr>,
        \<lparr>owner = 0, nbr = Interior 1, normal = (1, 0), area = 2\<rparr>,
        \<lparr>owner = 1, nbr = Boundary 4, normal = (1, 0), area = 2\<rparr>]
       [(7/5, 14/5, 0, 53/10), (7/5, 7/10, 0, 107/40)]
       [(0, 0, 0, 0), (0, 0, 0, 0)]
     = Inr [(- (7/40), 9/40, 0, - (189/640)), (- (77/20), - (219/20), 0, - (6699/320))]"
proof -
  let ?faces = "[\<lparr>owner = 0, nbr = Boundary 4, normal = (- 1, 0), area = 2\<rparr>,
      \<lparr>owner = 0, nbr = Interior 1, normal = (1, 0), area = 2\<rparr>,
      \<lparr>owner = 1, nbr = Boundary 4, normal = (1, 0), area = 2\<rparr>]"
  let ?cfg = "\<lparr>solid_wall_id = 2, inflow_outflow_id = 4, uinf = (7/5, 14/5, 0, 53/10)\<rparr>"
  let ?u = "[(7/5, 14/5, 0, 53/10), (7/5, 7/10, 0, 107/40)] :: vec4 list"
  let ?old = "[(1, 1, 1, 1), (2, 2, 2, 2)] :: vec4 list"
  have ok2: "mesh_ok 2 ?faces"
    by (simp add: mesh_ok_def)
  have ok: "mesh_ok (length ?old) ?faces"
    by (simp add: mesh_ok_def)
  have ev: "compute_residual (VanLeerFlux_get_flux (7/5)) ?cfg None ?faces ?u ?old
            = Inr [(- (7/40), 9/40, 0, - (189/640)), (- (77/20), - (219/20), 0, - (6699/320))]"
    by (simp add: compute_residual_def scaled_face_flux_def right_state_def left_state_def
          compute_boundary_state_def add_face_flux_def vscale_def VanLeer_examples
          zero_prod_def Let_def)
  show ?thesis
    using compute_residual_conservative[OF ok ev] ok2 ev by simp
qed

text \<open>
  C8. Solid-wall reflection. For an interior state of positive density and a unit
  normal, the ghost state resolved at a solid-wall face has the negated normal
  velocity, the same tangential velocity, the same density and the same total energy.
\<close>

theorem solid_wall_reflects:
  assumes "unit_normal n" and "0 < density ins"
  shows "\<exists>bs. compute_boundary_state cfg (solid_wall_id cfg) n ins = Inr bs
           \<and> normal_velocity bs n = - normal_velocity ins n
           \<and> tangential_velocity bs n = tangential_velocity ins n
           \<and> density bs = density ins
           \<and> total_energy bs = total_energy ins"
proof -
  obtain rho mx my E where u: "ins = (rho, mx, my, E)" by (cases ins) auto
  obtain nx ny where n: "n = (nx, ny)" by (cases n) auto
  have rho: "rho \<noteq> 0" using assms(2) by (simp add: u density_def)
  have un: "nx * nx + ny * ny = 1" using assms(1) by (simp add: n unit_normal_def power2_eq_square)
  define vx where "vx = mx / rho"
  define vy where "vy = my / rho"
  have nv: "(vx - 2 * (vx * nx + vy * ny) * nx) * nx + (vy - 2 * (vx * nx + vy * ny) * ny) * ny
            = - (vx * nx + vy * ny)"
  proof -
    have "(vx - 2 * (vx * nx + vy * ny) * nx) * nx + (vy - 2 * (vx * nx + vy * ny) * ny) * ny
          = (vx * nx + vy * ny) * (1 - 2 * (nx * nx + ny * ny))"
      by (simp add: algebra_simps)
    then show ?thesis by (simp add: un)
  qed
  have tv: "(vx - 2 * (vx * nx + vy * ny) * nx) * ny - (vy - 2 * (vx * nx + vy * ny) * ny) * nx
            = vx * ny - vy * nx"
    by (simp add: algebra_simps)
  show ?thesis
    using rho nv tv
    by (simp add: compute_boundary_state_def u n Let_def normal_velocity_def
          tangential_velocity_def density_def total_energy_def vx_def vy_def)
qed

theorem solid_wall_reflects_witness:
  "unit_normal (3/5, 4/5) \<and> 0 < density (2, 2, 4, 10)
   \<and> normal_velocity (2, 2, 4, 10) (3/5, 4/5) = 11/5
   \<and> compute_boundary_state \<lparr>solid_wall_id = 2, inflow_outflow_id = 4, uinf = (1, 0, 0, 1)\<rparr>
        2 (3/5, 4/5) (2, 2, 4, 10) = Inr (2, - (82/25), - (76/25), 10)
   \<and> normal_velocity (2, - (82/25), - (76/25), 10) (3/5, 4/5) = - (11/5)
   \<and> tangential_velocity (2, - (82/25), - (76/25), 10) (3/5, 4/5)
       = tangential_velocity (2, 2, 4, 10) (3/5, 4/5)"
proof -
  have un: "unit_normal (3/5, 4/5)" by (simp add: unit_normal_def power2_eq_square)
  have d: "0 < density (2, 2, 4, 10)" by (simp add: density_def)
  have ev: "compute_boundary_state \<lparr>solid_wall_id = 2, inflow_outflow_id = 4, uinf = (1, 0, 0, 1)\<rparr>
        2 (3/5, 4/5) (2, 2, 4, 10) = Inr (2, - (82/25), - (76/25), 10)"
    by (simp add: compute_boundary_state_def Let_def)
  show ?thesis
    using solid_wall_reflects[OF un d,
        of "\<lparr>solid_wall_id = 2, inflow_outflow_id = 4, uinf = (1, 0, 0, 1)\<rparr>"] un d
    by (simp add: ev normal_velocity_def)
qed

text \<open>
  C9. Rotational invariance: the flux on rotated states with the rotated normal should
  be the rotated flux, for both schemes. The Van Leer scheme has it (lemma
  \<open>VanLeer_rotation_invariant\<close>). The Roe scheme does not: for the gas at rest, which a
  rotation leaves unchanged, and a quarter turn of the normal \<open>(1, 0)\<close>, the two
  sides differ whatever the unassigned \<^verbatim>\<open>fi[2]\<close>, \<^verbatim>\<open>fi[3]\<close> hold.
\<close>

theorem RoeFlux_not_rotation_invariant:
  "is_rotation (0, 1) \<and> rotate_normal (0, 1) (1, 0) = (0, 1)
   \<and> rotate_state (0, 1) (7/5, 0, 0, 5/2) = (7/5, 0, 0, 5/2)
   \<and> (\<forall>j. RoeFlux_get_flux (7/5) j (rotate_state (0, 1) (7/5, 0, 0, 5/2))
              (rotate_state (0, 1) (7/5, 0, 0, 5/2)) (rotate_normal (0, 1) (1, 0))
           \<noteq> rotate_state (0, 1)
                (RoeFlux_get_flux (7/5) j (7/5, 0, 0, 5/2) (7/5, 0, 0, 5/2) (1, 0)))"
  by (simp add: is_rotation_def rotate_normal_def rotate_state_def RoeFlux_rest split_paired_all)

text \<open>
  C10. Skew symmetry of the Van Leer flux. For valid states L and R, exchanging the
  two sides and reversing the normal negates the flux:
  \<open>get_flux(R, L, - n) = - get_flux(L, R, n)\<close>.
\<close>

theorem VanLeer_skew_symmetric:
  assumes "1 < g" and "valid_state g ul" and "valid_state g ur"
  shows "VanLeerFlux_get_flux g ur ul (- nx, - ny) = - VanLeerFlux_get_flux g ul ur (nx, ny)"
  using assms
  by (simp add: VanLeerFlux_get_flux_def fiplus_reversed fjminus_reversed)

theorem VanLeer_skew_symmetric_witness:
  "1 < (7/5 :: real) \<and> valid_state (7/5) (7/5, 7/10, 0, 107/40)
   \<and> valid_state (7/5) (7/5, 14/5, 0, 53/10)
   \<and> VanLeerFlux_get_flux (7/5) (7/5, 7/10, 0, 107/40) (7/5, 14/5, 0, 53/10) (1, 0)
       = (63/80, 99/80, 0, 2541/1280)
   \<and> VanLeerFlux_get_flux (7/5) (7/5, 14/5, 0, 53/10) (7/5, 7/10, 0, 107/40) (- 1, 0)
       = (- (63/80), - (99/80), 0, - (2541/1280))"
proof -
  have g: "1 < (7/5 :: real)" by simp
  show ?thesis
    using VanLeer_skew_symmetric[OF g valid_examples(3) valid_examples(1), of 1 0]
    by (simp add: valid_examples VanLeer_examples)
qed

end
